theory Spec2Isabelle
  imports Complex_Main "HOL-Library.AList" "HOL-Library.Multiset"
begin

section \<open>Error taxonomy (intel/errors.py)\<close>

text \<open>
  The exception classes that the modelled code raises or inspects. \<open>APIError\<close>,
  \<open>RateLimitError\<close> and \<open>CircuitOpenError\<close> are the classes of intel/errors.py with the
  fields the code reads; \<open>TypeError\<close> is Python's own, raised when a call does not match
  the callee's signature; \<open>PydanticValidationError\<close> is raised by a pydantic model whose
  field constraint fails; \<open>OtherException\<close> stands for any other subclass of
  \<open>Exception\<close>. Floats are idealised as real numbers throughout.
\<close>

datatype exn =
    APIError "int option"
  | RateLimitError "real option"
  | CircuitOpenError real
  | TypeError
  | PydanticValidationError
  | OtherException string

fun is_RateLimitError :: "exn \<Rightarrow> bool" where
  "is_RateLimitError (RateLimitError r) = True"
| "is_RateLimitError e = False"

fun is_APIError :: "exn \<Rightarrow> bool" where
  "is_APIError (APIError s) = True"
| "is_APIError e = False"

text \<open>Python truthiness of an optional float: \<open>None\<close> and \<open>0.0\<close> are falsy.\<close>

fun truthy_float :: "real option \<Rightarrow> bool" where
  "truthy_float None = False"
| "truthy_float (Some r) = (r \<noteq> 0)"

section \<open>Retry engine (intel/retry.py)\<close>

record retry_config =
  max_attempts :: int
  base_delay :: real
  max_delay :: real
  jitter :: bool
  retryable_exceptions :: "exn \<Rightarrow> bool"
  rate_limit_max_attempts :: int
  rate_limit_base_delay :: real
  rate_limit_max_delay :: real

definition API_ERROR_MAX_ATTEMPTS :: int where "API_ERROR_MAX_ATTEMPTS = 3"
definition RATE_LIMIT_MAX_ATTEMPTS :: int where "RATE_LIMIT_MAX_ATTEMPTS = 5"
definition RATE_LIMIT_BASE_DELAY :: real where "RATE_LIMIT_BASE_DELAY = 2"
definition RATE_LIMIT_MAX_DELAY :: real where "RATE_LIMIT_MAX_DELAY = 32"

text \<open>The keyword defaults of \<open>retry_with_backoff\<close>.\<close>

definition default_retry_config :: retry_config where
  "default_retry_config =
     \<lparr> max_attempts = 3, base_delay = 1, max_delay = 30, jitter = True,
       retryable_exceptions = (\<lambda>e. is_APIError e \<or> is_RateLimitError e),
       rate_limit_max_attempts = RATE_LIMIT_MAX_ATTEMPTS,
       rate_limit_base_delay = RATE_LIMIT_BASE_DELAY,
       rate_limit_max_delay = RATE_LIMIT_MAX_DELAY \<rparr>"

text \<open>
  The loop variables of \<open>retry_with_backoff\<close>, and the delays handed to
  \<open>asyncio.sleep\<close> so far (oldest first).
\<close>

record retry_state =
  rl_attempt :: nat
  other_attempt :: nat
  total_attempt :: nat
  slept :: "real list"

definition retry_init :: retry_state where
  "retry_init = \<lparr> rl_attempt = 0, other_attempt = 0, total_attempt = 0, slept = [] \<rparr>"

text \<open>
  \<open>random.uniform(a, b)\<close> is \<open>a + (b - a) * random()\<close>; the sample \<open>u\<close> of
  \<open>random()\<close> is a parameter.
\<close>

definition uniform :: "real \<Rightarrow> real \<Rightarrow> real \<Rightarrow> real" where
  "uniform a b u = a + (b - a) * u"

text \<open>
  The body of the \<open>except retryable_exceptions as exc\<close> clause (retry.py lines 86-137)
  for one caught exception: either the exception is re-raised, or a delay is slept and
  the loop goes round again.
\<close>

datatype retry_decision = Reraise retry_state | SleepThenRetry real retry_state

definition backoff_delay :: "retry_config \<Rightarrow> exn \<Rightarrow> retry_state \<Rightarrow> real" where
  "backoff_delay cfg exc st =
     (if is_RateLimitError exc
      then min (rate_limit_base_delay cfg * 2 ^ (rl_attempt st - 1)) (rate_limit_max_delay cfg)
      else min (base_delay cfg * 2 ^ (other_attempt st - 1)) (max_delay cfg))"

definition retry_delay :: "retry_config \<Rightarrow> exn \<Rightarrow> retry_state \<Rightarrow> real" where
  "retry_delay cfg exc st =
     (case exc of
        RateLimitError ra \<Rightarrow>
          (if truthy_float ra then max (backoff_delay cfg exc st) (the ra)
           else backoff_delay cfg exc st)
      | _ \<Rightarrow> backoff_delay cfg exc st)"

definition on_retryable :: "retry_config \<Rightarrow> exn \<Rightarrow> real \<Rightarrow> retry_state \<Rightarrow> retry_decision" where
  "on_retryable cfg exc u st =
     (let is_rate_limit = is_RateLimitError exc;
          st1 = (if is_rate_limit then st\<lparr>rl_attempt := rl_attempt st + 1\<rparr>
                 else st\<lparr>other_attempt := other_attempt st + 1\<rparr>);
          effective_max = (if is_rate_limit then rate_limit_max_attempts cfg else max_attempts cfg);
          attempt_idx = (if is_rate_limit then rl_attempt st1 else other_attempt st1)
      in if int attempt_idx \<ge> effective_max then Reraise st1
         else let delay = retry_delay cfg exc st1;
                  delay' = (if jitter cfg then uniform (delay * 0.5) (delay * 1.5) u else delay)
              in SleepThenRetry delay' (st1\<lparr>slept := slept st1 @ [delay']\<rparr>))"

text \<open>
  The \<open>while True\<close> loop. \<open>fn k\<close> is the outcome of the \<open>k\<close>-th call of the wrapped
  coroutine (\<open>k\<close> is \<open>total_attempt\<close>, counted from 1) and \<open>u k\<close> the jitter sample drawn
  after it. An exception outside \<open>retryable_exceptions\<close> propagates at once. The
  optional callback \<open>on_retry\<close> is not passed by any caller and is left out.
\<close>

definition budget_left :: "retry_config \<Rightarrow> retry_state \<Rightarrow> nat" where
  "budget_left cfg st =
     nat (rate_limit_max_attempts cfg - int (rl_attempt st)) +
     nat (max_attempts cfg - int (other_attempt st))"

function retry_loop ::
  "retry_config \<Rightarrow> (nat \<Rightarrow> exn + 'a) \<Rightarrow> (nat \<Rightarrow> real) \<Rightarrow> retry_state \<Rightarrow> (exn + 'a) \<times> retry_state"
where
  "retry_loop cfg fn u st =
     (let st0 = st\<lparr>total_attempt := total_attempt st + 1\<rparr> in
      case fn (total_attempt st0) of
        Inr v \<Rightarrow> (Inr v, st0)
      | Inl exc \<Rightarrow>
          if \<not> retryable_exceptions cfg exc then (Inl exc, st0)
          else (case on_retryable cfg exc (u (total_attempt st0)) st0 of
                  Reraise st1 \<Rightarrow> (Inl exc, st1)
                | SleepThenRetry d st1 \<Rightarrow> retry_loop cfg fn u st1))"
  by pat_completeness auto
termination
proof (relation "measure (\<lambda>(cfg, fn, u, st). budget_left cfg st)")
  show "wf (measure (\<lambda>(cfg, fn, u, st). budget_left cfg st))" by simp
next
  fix cfg :: retry_config and fn :: "nat \<Rightarrow> exn + 'a" and u :: "nat \<Rightarrow> real"
    and st st0 :: retry_state and exc d st1
  assume st0: "st0 = st\<lparr>total_attempt := total_attempt st + 1\<rparr>"
    and dec: "on_retryable cfg exc (u (total_attempt st0)) st0 = SleepThenRetry d st1"
  from dec have "budget_left cfg st1 < budget_left cfg st0"
    by (auto simp: on_retryable_def budget_left_def Let_def split: if_splits)
  moreover from st0 have "budget_left cfg st0 = budget_left cfg st"
    by (simp add: budget_left_def)
  ultimately show "((cfg, fn, u, st1), (cfg, fn, u, st)) \<in> measure (\<lambda>(cfg, fn, u, st). budget_left cfg st)"
    by simp
qed

definition retry_with_backoff ::
  "retry_config \<Rightarrow> (nat \<Rightarrow> exn + 'a) \<Rightarrow> (nat \<Rightarrow> real) \<Rightarrow> (exn + 'a) \<times> retry_state"
where
  "retry_with_backoff cfg fn u = retry_loop cfg fn u retry_init"


section \<open>Circuit breaker (intel/circuit_breaker.py)\<close>

datatype CircuitState = CLOSED | OPEN | HALF_OPEN

record CircuitBreakerConfig =
  failure_threshold :: int
  timeout_seconds :: real
  half_open_max_calls :: int
  failure_window_seconds :: real

definition INTEL_API_CONFIG :: CircuitBreakerConfig where
  "INTEL_API_CONFIG =
     \<lparr> failure_threshold = 3, timeout_seconds = 60, half_open_max_calls = 1,
       failure_window_seconds = 60 \<rparr>"

text \<open>
  The instance attributes of \<open>CircuitBreaker\<close> (without the leading underscore), and
  \<open>state_changes\<close>: the (previous state, new state) pairs of the
  \<open>circuit_breaker_state_changed\<close> events scheduled by \<open>_transition_to\<close>, oldest first.
\<close>

record CircuitBreaker =
  service_name :: string
  config :: CircuitBreakerConfig
  cb_state :: CircuitState
  failure_count :: nat
  failure_timestamps :: "real list"
  opened_at :: real
  half_open_calls :: nat
  state_changes :: "(CircuitState \<times> CircuitState) list"

definition CircuitBreaker_init :: "string \<Rightarrow> CircuitBreakerConfig \<Rightarrow> CircuitBreaker" where
  "CircuitBreaker_init name cfg =
     \<lparr> service_name = name, config = cfg, cb_state = CLOSED, failure_count = 0,
       failure_timestamps = [], opened_at = 0, half_open_calls = 0, state_changes = [] \<rparr>"

subsection \<open>The class body and Python's rebinding of method names\<close>

text \<open>
  The body of \<open>class CircuitBreaker\<close> defines \<open>call\<close>, \<open>_record_success\<close> and
  \<open>_record_failure\<close> twice. A class body is executed top to bottom and every \<open>def\<close>
  binds its name in the class namespace, so the later definition replaces the earlier
  one. The list below is the sequence of \<open>def\<close> statements of the class in source order:
  the method name, and the parameters after \<open>self\<close> with a flag telling whether the
  parameter has a default value.
\<close>

type_synonym py_param = "string \<times> bool"
type_synonym py_def = "string \<times> py_param list"

definition CircuitBreaker_class_body :: "py_def list" where
  "CircuitBreaker_class_body =
     [ (''__init__'', [(''service_name'', False), (''config'', True), (''source_module'', True)]),
       (''state'', []),
       (''is_closed'', []),
       (''is_open'', []),
       (''_transition_to'', [(''new_state'', False), (''query_id'', True)]),
       (''call'', [(''func'', False), (''query_id'', True)]),
       (''_record_success'', []),
       (''_record_failure'', [(''query_id'', True)]),
       (''_prune_old_failures'', []),
       (''_record_failure'', []),
       (''_record_success'', []),
       (''call'', [(''fn'', False)]),
       (''reset'', []) ]"

text \<open>The definition a name is bound to once the class body has run: the last one.\<close>

definition effective_def :: "py_def list \<Rightarrow> string \<Rightarrow> py_param list option" where
  "effective_def body name = map_of (rev body) name"

text \<open>
  Binding the arguments of a call \<open>obj.m(a1, ..., an, k1=..., ..., km=...)\<close> to the
  parameters of \<open>m\<close>: Python raises \<open>TypeError\<close> unless the positional arguments fit,
  every keyword names a parameter that is not already bound, and every parameter
  without a default is bound.
\<close>

definition binds :: "py_param list \<Rightarrow> nat \<Rightarrow> string list \<Rightarrow> bool" where
  "binds params npos kws =
     (npos \<le> length params \<and> distinct kws \<and>
      list_all (\<lambda>k. k \<in> set (map fst (drop npos params))) kws \<and>
      list_all (\<lambda>p. snd p \<or> fst p \<in> set kws) (drop npos params))"

subsection \<open>The effective methods\<close>

text \<open>
  Every reading of \<open>time.monotonic()\<close> is a parameter. Readings that the code takes
  back to back, with no \<open>await\<close> between them, are taken to be equal.
\<close>

definition transition_to :: "CircuitState \<Rightarrow> CircuitBreaker \<Rightarrow> CircuitBreaker" where
  "transition_to new_state cb =
     (let old_state = cb_state cb in
      if old_state = new_state then cb
      else let cb1 = cb\<lparr>cb_state := new_state,
                          state_changes := state_changes cb @ [(old_state, new_state)]\<rparr>
           in if new_state = CLOSED
              then cb1\<lparr>failure_count := 0, failure_timestamps := [], half_open_calls := 0\<rparr>
              else cb1)"

text \<open>The \<open>state\<close> property: reading it may move the breaker from OPEN to HALF_OPEN.\<close>

definition state_property :: "real \<Rightarrow> CircuitBreaker \<Rightarrow> CircuitState \<times> CircuitBreaker" where
  "state_property now cb =
     (let cb1 = (if cb_state cb = OPEN \<and> now - opened_at cb \<ge> timeout_seconds (config cb)
                 then transition_to HALF_OPEN cb else cb)
      in (cb_state cb1, cb1))"

definition prune_old_failures :: "real \<Rightarrow> CircuitBreaker \<Rightarrow> CircuitBreaker" where
  "prune_old_failures now cb =
     (let cutoff = now - failure_window_seconds (config cb);
          ts = filter (\<lambda>t. t \<ge> cutoff) (failure_timestamps cb)
      in cb\<lparr>failure_timestamps := ts, failure_count := length ts\<rparr>)"

definition record_failure :: "real \<Rightarrow> CircuitBreaker \<Rightarrow> CircuitBreaker" where
  "record_failure now cb =
     (let cb1 = prune_old_failures now (cb\<lparr>failure_timestamps := failure_timestamps cb @ [now]\<rparr>)
      in if cb_state cb1 = HALF_OPEN
         then transition_to OPEN (cb1\<lparr>opened_at := now\<rparr>)
         else if int (failure_count cb1) \<ge> failure_threshold (config cb1)
         then transition_to OPEN (cb1\<lparr>opened_at := now\<rparr>)
         else cb1)"

definition record_success :: "real \<Rightarrow> CircuitBreaker \<Rightarrow> CircuitBreaker" where
  "record_success now cb =
     (if cb_state cb = HALF_OPEN then transition_to CLOSED cb
      else if cb_state cb = CLOSED then prune_old_failures now cb
      else cb)"

text \<open>
  \<open>call\<close> (the second definition, lines 247-278). \<open>fn\<close> is the wrapped coroutine as a
  transformer of the caller's world \<open>'w\<close>: when the breaker rejects the call the world
  is returned untouched. \<open>now\<close> is the clock at entry and \<open>now'\<close> the clock when \<open>fn\<close> has
  finished.
\<close>

definition CircuitBreaker_call ::
  "real \<Rightarrow> real \<Rightarrow> ('w \<Rightarrow> (exn + 'a) \<times> 'w) \<Rightarrow> CircuitBreaker \<Rightarrow> 'w \<Rightarrow> (exn + 'a) \<times> CircuitBreaker \<times> 'w"
where
  "CircuitBreaker_call now now' fn cb w =
     (let (current_state, cb1) = state_property now cb in
      if current_state = OPEN
      then (let remaining = timeout_seconds (config cb1) - (now - opened_at cb1)
            in (Inl (CircuitOpenError (max 0 remaining)), cb1, w))
      else
        let cb2 = (if current_state = HALF_OPEN
                   then cb1\<lparr>half_open_calls := half_open_calls cb1 + 1\<rparr> else cb1)
        in if current_state = HALF_OPEN \<and> int (half_open_calls cb2) > half_open_max_calls (config cb2)
           then (Inl (CircuitOpenError 0), cb2, w)
           else (case fn w of
                   (Inr result, w') \<Rightarrow> (Inr result, record_success now' cb2, w')
                 | (Inl exc, w') \<Rightarrow> (Inl exc, record_failure now' cb2, w')))"

definition reset :: "CircuitBreaker \<Rightarrow> CircuitBreaker" where
  "reset cb = transition_to CLOSED cb"

section \<open>Shared types (intel/types.py)\<close>

datatype IntelDepth = SHALLOW | STANDARD | DEEP

record SearchResult =
  sr_url :: "string option"
  sr_title :: string
  sr_snippet :: string
  sr_relevance_score :: real
  sr_source_name :: string

record ScrapedContent =
  sc_url :: string
  sc_title :: string
  sc_content :: string
  sc_markdown :: string
  sc_cost_usd :: real
  sc_latency_ms :: real

record IntelSource =
  source_name :: string
  url :: "string option"
  title :: string
  snippet :: string
  relevance_score :: real
  cost_usd :: real
  latency_ms :: real

record IntelResult =
  r_query_id :: string
  r_correlation_id :: string
  sources :: "IntelSource list"
  merged_text :: string
  depth_used :: IntelDepth
  total_cost_usd :: real
  r_latency_ms :: real
  cached :: bool

record IntelQuery =
  query_id :: string
  query_text :: string
  depth :: IntelDepth
  max_sources :: int
  cache_ttl_seconds :: "int option"
  correlation_id :: string

text \<open>
  The field constraints of the pydantic model \<open>IntelSource\<close> (\<open>ge\<close>/\<open>le\<close>): constructing
  an instance that violates one raises a validation error.
\<close>

definition IntelSource_new :: "IntelSource \<Rightarrow> exn + IntelSource" where
  "IntelSource_new s =
     (if 0 \<le> relevance_score s \<and> relevance_score s \<le> 1 \<and> 0 \<le> cost_usd s \<and> 0 \<le> latency_ms s
      then Inr s else Inl PydanticValidationError)"

section \<open>Source clients (intel/sources)\<close>

definition EXA_COST_PER_RESULT :: real where "EXA_COST_PER_RESULT = 0.0005"
definition TAVILY_COST_PER_SEARCH :: real where "TAVILY_COST_PER_SEARCH = 0.01"
definition COST_PER_PAGE :: real where "COST_PER_PAGE = 0.001"

text \<open>
  An HTTP response as the clients read it: the status code, the \<open>Retry-After\<close> header
  (already a number, when present) and the decoded JSON body. \<open>client.post\<close> may also
  raise (a transport failure), so the outcome of a request is a sum.
\<close>

record 'b http_response =
  status_code :: int
  retry_after_header :: "real option"
  body :: 'b

text \<open>\<open>_do_request\<close>, the same in the three clients up to the parser of the body.\<close>

definition do_request :: "('b \<Rightarrow> 'a) \<Rightarrow> exn + 'b http_response \<Rightarrow> exn + 'a" where
  "do_request parse outcome =
     (case outcome of
        Inl e \<Rightarrow> Inl e
      | Inr response \<Rightarrow>
          if status_code response = 429
          then Inl (RateLimitError
                 (Some (case retry_after_header response of None \<Rightarrow> 2 | Some r \<Rightarrow> r)))
          else if status_code response \<noteq> 200
          then Inl (APIError (Some (status_code response)))
          else Inr (parse (body response)))"

text \<open>
  The state of one client: its breaker, \<open>_rate_limited_until\<close>, the number of HTTP
  requests it has issued and the events it has emitted (event type, source, status).
\<close>

record source_client =
  circuit_breaker :: CircuitBreaker
  rate_limited_until :: real
  http_requests :: nat
  emitted :: "(string \<times> string \<times> string) list"

definition source_client_init :: "string \<Rightarrow> source_client" where
  "source_client_init name =
     \<lparr> circuit_breaker = CircuitBreaker_init name INTEL_API_CONFIG, rate_limited_until = 0,
       http_requests = 0, emitted = [] \<rparr>"

definition is_rate_limited :: "real \<Rightarrow> source_client \<Rightarrow> bool" where
  "is_rate_limited now c = (now < rate_limited_until c)"

definition emit_event :: "string \<times> string \<times> string \<Rightarrow> source_client \<Rightarrow> source_client" where
  "emit_event ev c = c\<lparr>emitted := emitted c @ [ev]\<rparr>"

text \<open>
  \<open>_execute_search\<close> / \<open>_execute_scrape\<close>: the request under \<open>retry_with_backoff\<close> with
  the arguments the three clients pass. \<open>http k\<close> is the outcome of the \<open>k\<close>-th request
  of this call.
\<close>

definition source_retry_config :: retry_config where
  "source_retry_config =
     default_retry_config\<lparr> max_attempts := 3, base_delay := 1, max_delay := 30, jitter := True,
       rate_limit_max_attempts := 5, rate_limit_base_delay := 2, rate_limit_max_delay := 32 \<rparr>"

definition execute_request ::
  "('b \<Rightarrow> 'a) \<Rightarrow> (nat \<Rightarrow> exn + 'b http_response) \<Rightarrow> (nat \<Rightarrow> real) \<Rightarrow> source_client \<Rightarrow> (exn + 'a) \<times> source_client"
where
  "execute_request parse http u c =
     (case retry_with_backoff source_retry_config (\<lambda>k. do_request parse (http k)) u of
        (res, st) \<Rightarrow> (res, c\<lparr>http_requests := http_requests c + total_attempt st\<rparr>))"

text \<open>
  The \<open>except Exception as exc\<close> clause of \<open>search\<close> / \<open>scrape\<close> (exa.py lines 144-164,
  tavily.py lines 143-163, firecrawl.py lines 150-171): mark the client rate-limited
  on a \<open>RateLimitError\<close>, emit the failed event, re-raise.
\<close>

fun rate_limit_window :: "exn \<Rightarrow> real" where
  "rate_limit_window (RateLimitError ra) = (if truthy_float ra then the ra else 60)"
| "rate_limit_window e = 60"

definition on_exception :: "string \<Rightarrow> exn \<Rightarrow> real \<Rightarrow> source_client \<Rightarrow> source_client" where
  "on_exception name exc now c =
     emit_event (''SourceQueried'', name, ''failed'')
       (if is_RateLimitError exc
        then c\<lparr>rate_limited_until := now + rate_limit_window exc\<rparr>
        else c)"

text \<open>
  The per-call protocol, which the three clients share line for line: emit the started
  event, run the request under the breaker, emit the completed event and return, or go
  through the \<open>except\<close> clause. The call site is
  \<open>self._circuit_breaker.call(lambda: ..., query_id=query_id)\<close>: one positional argument
  and the keyword \<open>query_id\<close>, bound against the definition of \<open>call\<close> in force. A
  \<open>TypeError\<close> from the binding is an \<open>Exception\<close> and goes through the \<open>except\<close> clause
  like any other. \<open>finish\<close> is what the client does to the result before returning it
  (given the latency in ms); \<open>t0\<close> is the clock at entry and \<open>t1\<close> the clock when the
  breaker call is over.
\<close>

definition source_call ::
  "string \<Rightarrow> ('b \<Rightarrow> 'a) \<Rightarrow> (real \<Rightarrow> 'a \<Rightarrow> 'a) \<Rightarrow> real \<Rightarrow> real \<Rightarrow>
   (nat \<Rightarrow> exn + 'b http_response) \<Rightarrow> (nat \<Rightarrow> real) \<Rightarrow> source_client \<Rightarrow> (exn + 'a) \<times> source_client"
where
  "source_call name parse finish t0 t1 http u c =
     (let c1 = emit_event (''source_querying'', name, ''started'') c in
      case effective_def CircuitBreaker_class_body ''call'' of
        None \<Rightarrow> (Inl (OtherException ''AttributeError''),
                 on_exception name (OtherException ''AttributeError'') t1 c1)
      | Some params \<Rightarrow>
          if \<not> binds params 1 [''query_id'']
          then (Inl TypeError, on_exception name TypeError t1 c1)
          else (case CircuitBreaker_call t0 t1 (execute_request parse http u)
                       (circuit_breaker c1) c1 of
                  (Inr results, cb', c2) \<Rightarrow>
                    (Inr (finish ((t1 - t0) * 1000) results),
                     emit_event (''SourceQueried'', name, ''completed'')
                       (c2\<lparr>circuit_breaker := cb'\<rparr>))
                | (Inl exc, cb', c2) \<Rightarrow>
                    (Inl exc, on_exception name exc t1 (c2\<lparr>circuit_breaker := cb'\<rparr>))))"

subsection \<open>Neural search (exa.py)\<close>

record exa_item =
  exa_url :: "string option"
  exa_title :: "string option"
  exa_text :: "string option"
  exa_highlights :: "string list option"
  exa_score :: "real option"

fun join_with :: "string \<Rightarrow> string list \<Rightarrow> string" where
  "join_with sep [] = []"
| "join_with sep [x] = x"
| "join_with sep (x # y # ys) = x @ sep @ join_with sep (y # ys)"

definition or_else :: "'a option \<Rightarrow> 'a \<Rightarrow> 'a" where
  "or_else v d = (case v of None \<Rightarrow> d | Some x \<Rightarrow> x)"

definition exa_parse_item :: "exa_item \<Rightarrow> SearchResult" where
  "exa_parse_item item =
     (let text = (case exa_text item of
                    Some t \<Rightarrow> t
                  | None \<Rightarrow> (case exa_highlights item of
                               Some hs \<Rightarrow> (if hs \<noteq> [] then join_with '' '' hs else [])
                             | None \<Rightarrow> []))
      in \<lparr> sr_url = exa_url item,
           sr_title = or_else (exa_title item) [],
           sr_snippet = (if text \<noteq> [] then take 500 text else or_else (exa_title item) []),
           sr_relevance_score = or_else (exa_score item) 0,
           sr_source_name = ''exa'' \<rparr>)"

definition ExaSource_parse_results :: "exa_item list \<Rightarrow> SearchResult list" where
  "ExaSource_parse_results items = map exa_parse_item items"

definition ExaSource_search ::
  "real \<Rightarrow> real \<Rightarrow> (nat \<Rightarrow> exn + exa_item list http_response) \<Rightarrow> (nat \<Rightarrow> real) \<Rightarrow>
   source_client \<Rightarrow> (exn + SearchResult list) \<times> source_client"
where
  "ExaSource_search = source_call ''exa'' ExaSource_parse_results (\<lambda>latency r. r)"

subsection \<open>News search (tavily.py)\<close>

record tavily_item =
  tavily_url :: "string option"
  tavily_title :: "string option"
  tavily_content :: "string option"
  tavily_score :: "real option"

definition tavily_parse_item :: "tavily_item \<Rightarrow> SearchResult" where
  "tavily_parse_item item =
     \<lparr> sr_url = tavily_url item,
       sr_title = or_else (tavily_title item) [],
       sr_snippet = take 500 (or_else (tavily_content item) []),
       sr_relevance_score = or_else (tavily_score item) 0,
       sr_source_name = ''tavily'' \<rparr>"

definition TavilySource_parse_results :: "tavily_item list \<Rightarrow> SearchResult list" where
  "TavilySource_parse_results items = map tavily_parse_item items"

definition TavilySource_search ::
  "real \<Rightarrow> real \<Rightarrow> (nat \<Rightarrow> exn + tavily_item list http_response) \<Rightarrow> (nat \<Rightarrow> real) \<Rightarrow>
   source_client \<Rightarrow> (exn + SearchResult list) \<times> source_client"
where
  "TavilySource_search = source_call ''tavily'' TavilySource_parse_results (\<lambda>latency r. r)"

subsection \<open>Scraper (firecrawl.py)\<close>

record firecrawl_page =
  page_markdown :: "string option"
  page_rawHtml :: "string option"
  page_title :: "string option"

definition parse_scrape_result :: "string \<Rightarrow> firecrawl_page \<Rightarrow> ScrapedContent" where
  "parse_scrape_result u page_data =
     \<lparr> sc_url = u,
       sc_title = or_else (page_title page_data) [],
       sc_content = or_else (page_rawHtml page_data) [],
       sc_markdown = or_else (page_markdown page_data) [],
       sc_cost_usd = 0,
       sc_latency_ms = 0 \<rparr>"

definition FirecrawlSource_scrape ::
  "string \<Rightarrow> real \<Rightarrow> real \<Rightarrow> (nat \<Rightarrow> exn + firecrawl_page http_response) \<Rightarrow> (nat \<Rightarrow> real) \<Rightarrow>
   source_client \<Rightarrow> (exn + ScrapedContent) \<times> source_client"
where
  "FirecrawlSource_scrape u =
     source_call ''firecrawl'' (parse_scrape_result u)
       (\<lambda>latency r. r\<lparr>sc_latency_ms := latency, sc_cost_usd := COST_PER_PAGE\<rparr>)"

text \<open>
  \<open>batch_scrape\<close>: every URL is scraped, a failed scrape is logged and dropped. The
  scrapes run under a semaphore; the model runs them one after the other, each against
  its own backend \<open>http u\<close>.
\<close>

fun batch_scrape_loop ::
  "real \<Rightarrow> real \<Rightarrow> (string \<Rightarrow> nat \<Rightarrow> exn + firecrawl_page http_response) \<Rightarrow> (nat \<Rightarrow> real) \<Rightarrow>
   string list \<Rightarrow> source_client \<Rightarrow> ScrapedContent list \<times> source_client"
where
  "batch_scrape_loop t0 t1 http u [] c = ([], c)"
| "batch_scrape_loop t0 t1 http u (x # xs) c =
     (case FirecrawlSource_scrape x t0 t1 (http x) u c of
        (Inl e, c1) \<Rightarrow> batch_scrape_loop t0 t1 http u xs c1
      | (Inr page, c1) \<Rightarrow>
          (case batch_scrape_loop t0 t1 http u xs c1 of (pages, c2) \<Rightarrow> (page # pages, c2)))"

definition FirecrawlSource_batch_scrape ::
  "real \<Rightarrow> real \<Rightarrow> (string \<Rightarrow> nat \<Rightarrow> exn + firecrawl_page http_response) \<Rightarrow> (nat \<Rightarrow> real) \<Rightarrow>
   string list \<Rightarrow> source_client \<Rightarrow> ScrapedContent list \<times> source_client"
where
  "FirecrawlSource_batch_scrape t0 t1 http u urls c =
     (if urls = [] then ([], c) else batch_scrape_loop t0 t1 http u urls c)"

section \<open>Orchestrator (intel/orchestrator.py)\<close>

subsection \<open>String helpers\<close>

text \<open>
  Python's \<open>str.lower\<close>, \<open>str.strip\<close> and the substring test \<open>p in s\<close>, on ASCII text.
\<close>

definition lower_char :: "char \<Rightarrow> char" where
  "lower_char c =
     (case map_of (zip ''ABCDEFGHIJKLMNOPQRSTUVWXYZ'' ''abcdefghijklmnopqrstuvwxyz'') c of
        None \<Rightarrow> c
      | Some l \<Rightarrow> l)"

definition py_lower :: "string \<Rightarrow> string" where
  "py_lower s = map lower_char s"

definition is_space :: "char \<Rightarrow> bool" where
  "is_space c =
     (c \<in> set [CHR 0x09, CHR 0x0A, CHR 0x0B, CHR 0x0C, CHR 0x0D,
                CHR 0x1C, CHR 0x1D, CHR 0x1E, CHR 0x1F, CHR 0x20])"

definition py_strip :: "string \<Rightarrow> string" where
  "py_strip s = rev (dropWhile is_space (rev (dropWhile is_space s)))"

fun contains :: "string \<Rightarrow> string \<Rightarrow> bool" where
  "contains p [] = (p = [])"
| "contains p (c # cs) = (take (length p) (c # cs) = p \<or> contains p cs)"

text \<open>Truthiness of an optional string: \<open>None\<close> and the empty string are falsy.\<close>

fun truthy_str :: "string option \<Rightarrow> bool" where
  "truthy_str None = False"
| "truthy_str (Some s) = (s \<noteq> [])"

subsection \<open>Merging\<close>

text \<open>A list comprehension whose element constructor may raise: the first failure wins.\<close>

fun collect :: "(exn + 'a) list \<Rightarrow> exn + 'a list" where
  "collect [] = Inr []"
| "collect (x # xs) =
     (case x of
        Inl e \<Rightarrow> Inl e
      | Inr v \<Rightarrow> (case collect xs of Inl e \<Rightarrow> Inl e | Inr vs \<Rightarrow> Inr (v # vs)))"

definition convert_search_results :: "SearchResult list \<Rightarrow> string \<Rightarrow> exn + IntelSource list" where
  "convert_search_results results name =
     (let per_result_cost =
            (if name = ''exa'' then EXA_COST_PER_RESULT
             else TAVILY_COST_PER_SEARCH / real (max (length results) 1))
      in collect (map (\<lambda>r. IntelSource_new
                        \<lparr> source_name = name, url = sr_url r, title = sr_title r,
                          snippet = sr_snippet r, relevance_score = sr_relevance_score r,
                          cost_usd = per_result_cost, latency_ms = 0 \<rparr>) results))"

text \<open>
  \<open>_deduplicate_sources\<close>. The dictionary \<open>seen_urls\<close> is an association list in
  insertion order: assigning to a key that is present keeps its position, as a Python
  dict does. \<open>list.sort(key=..., reverse=True)\<close> is stable, so it is the stable sort on
  the negated key.
\<close>

fun dedup_loop ::
  "IntelSource list \<Rightarrow> (string \<times> IntelSource) list \<Rightarrow> IntelSource list \<Rightarrow>
   (string \<times> IntelSource) list \<times> IntelSource list"
where
  "dedup_loop [] seen_urls no_url_sources = (seen_urls, no_url_sources)"
| "dedup_loop (source # rest) seen_urls no_url_sources =
     (if truthy_str (url source)
      then (case map_of seen_urls (the (url source)) of
              None \<Rightarrow>
                dedup_loop rest (AList.update (the (url source)) source seen_urls) no_url_sources
            | Some existing \<Rightarrow>
                if relevance_score source > relevance_score existing
                then dedup_loop rest (AList.update (the (url source)) source seen_urls)
                       no_url_sources
                else dedup_loop rest seen_urls no_url_sources)
      else dedup_loop rest seen_urls (no_url_sources @ [source]))"

definition deduplicate_sources :: "IntelSource list \<Rightarrow> IntelSource list" where
  "deduplicate_sources srcs =
     (case dedup_loop srcs [] [] of
        (seen_urls, no_url_sources) \<Rightarrow>
          sort_key (\<lambda>s. - relevance_score s) (map snd seen_urls @ no_url_sources))"

fun merge_loop :: "IntelSource list \<Rightarrow> string list \<Rightarrow> string list \<Rightarrow> string list" where
  "merge_loop [] seen_snippets merged_parts = merged_parts"
| "merge_loop (source # rest) seen_snippets merged_parts =
     (let dedup_key = py_lower (py_strip (take 100 (snippet source))) in
      if dedup_key \<noteq> [] \<and> dedup_key \<notin> set seen_snippets
      then (let header = ''['' @ source_name source @ '']'' @
                           (if title source \<noteq> [] then '' '' @ title source else [])
            in merge_loop rest (dedup_key # seen_snippets)
                 (merged_parts @ [header @ [CHR 0x0A] @ snippet source]))
      else merge_loop rest seen_snippets merged_parts)"

definition merge_snippets :: "IntelSource list \<Rightarrow> string" where
  "merge_snippets srcs = join_with [CHR 0x0A, CHR 0x0A] (merge_loop srcs [] [])"

definition skip_patterns :: "string list" where
  "skip_patterns =
     [''twitter.com'', ''x.com'', ''reddit.com'', ''facebook.com'', ''youtube.com'', ''google.com'']"

fun extract_loop :: "SearchResult list \<Rightarrow> nat \<Rightarrow> string list \<Rightarrow> string list" where
  "extract_loop [] max_urls urls = urls"
| "extract_loop (r # rest) max_urls urls =
     (if truthy_str (sr_url r) \<and> length urls < max_urls
      then (if \<not> list_ex (\<lambda>p. contains p (py_lower (the (sr_url r)))) skip_patterns
            then extract_loop rest max_urls (urls @ [the (sr_url r)])
            else extract_loop rest max_urls urls)
      else extract_loop rest max_urls urls)"

definition extract_scrape_urls :: "SearchResult list \<Rightarrow> string list" where
  "extract_scrape_urls results = extract_loop results 5 []"

subsection \<open>The injected sources\<close>

text \<open>
  The orchestrator is constructed with its three source objects (\<open>exa\<close>, \<open>tavily\<close>,
  \<open>firecrawl\<close>) and only calls \<open>search\<close>, \<open>batch_scrape\<close> and \<open>is_rate_limited\<close> on them.
  They are modelled as operations on a world \<open>'w\<close> that the sources own; an awaited call
  either returns a value or raises.
\<close>

record 'w ports =
  exa_search :: "string \<Rightarrow> nat \<Rightarrow> 'w \<Rightarrow> (exn + SearchResult list) \<times> 'w"
  exa_is_rate_limited :: "'w \<Rightarrow> bool"
  tavily_search :: "string \<Rightarrow> nat \<Rightarrow> 'w \<Rightarrow> (exn + SearchResult list) \<times> 'w"
  tavily_is_rate_limited :: "'w \<Rightarrow> bool"
  firecrawl_batch_scrape :: "string list \<Rightarrow> 'w \<Rightarrow> (exn + ScrapedContent list) \<times> 'w"

subsection \<open>The three depths\<close>

definition make_result ::
  "IntelQuery \<Rightarrow> IntelSource list \<Rightarrow> IntelDepth \<Rightarrow> real \<Rightarrow> IntelResult"
where
  "make_result query srcs d cost =
     \<lparr> r_query_id = query_id query, r_correlation_id = correlation_id query,
       sources = srcs, merged_text = merge_snippets srcs, depth_used = d,
       total_cost_usd = cost, r_latency_ms = 0, cached = False \<rparr>"

definition gather_shallow :: "'w ports \<Rightarrow> IntelQuery \<Rightarrow> 'w \<Rightarrow> (exn + IntelResult) \<times> 'w" where
  "gather_shallow p query w =
     (case exa_search p (query_text query) 5 w of
        (Inl e, w1) \<Rightarrow> (Inl e, w1)
      | (Inr exa_results, w1) \<Rightarrow>
          (case convert_search_results exa_results ''exa'' of
             Inl e \<Rightarrow> (Inl e, w1)
           | Inr srcs \<Rightarrow>
               (Inr (make_result query srcs SHALLOW
                       (real (length exa_results) * EXA_COST_PER_RESULT)), w1)))"

text \<open>
  \<open>_gather_standard\<close>. The two searches run as concurrent tasks on separate source
  objects; the model runs the neural search first. \<open>asyncio.gather\<close> with
  \<open>return_exceptions=True\<close> hands a raised exception back as a value, and a value that is
  not a list leaves the source's results empty.
\<close>

definition gather_standard :: "'w ports \<Rightarrow> IntelQuery \<Rightarrow> 'w \<Rightarrow> (exn + IntelResult) \<times> 'w" where
  "gather_standard p query w =
     (let exa_rate_limited = exa_is_rate_limited p w;
          tavily_rate_limited = tavily_is_rate_limited p w;
          (exa_out, w1) = (if \<not> exa_rate_limited then exa_search p (query_text query) 10 w
                           else (Inr [], w));
          (tavily_out, w2) = (if \<not> tavily_rate_limited then tavily_search p (query_text query) 5 w1
                              else (Inr [], w1));
          exa_results = (case exa_out of Inl e \<Rightarrow> [] | Inr rs \<Rightarrow> rs);
          tavily_results = (case tavily_out of Inl e \<Rightarrow> [] | Inr rs \<Rightarrow> rs)
      in case convert_search_results exa_results ''exa'' of
           Inl e \<Rightarrow> (Inl e, w2)
         | Inr exa_sources \<Rightarrow>
             (case convert_search_results tavily_results ''tavily'' of
                Inl e \<Rightarrow> (Inl e, w2)
              | Inr tavily_sources \<Rightarrow>
                  (let srcs = deduplicate_sources (exa_sources @ tavily_sources);
                       cost = real (length exa_results) * EXA_COST_PER_RESULT +
                              (if tavily_results \<noteq> [] then TAVILY_COST_PER_SEARCH else 0)
                   in (Inr (make_result query srcs STANDARD cost), w2))))"

definition scraped_source :: "ScrapedContent \<Rightarrow> exn + IntelSource" where
  "scraped_source sc =
     IntelSource_new
       \<lparr> source_name = ''firecrawl'', url = Some (sc_url sc), title = sc_title sc,
         snippet = (if sc_markdown sc \<noteq> [] then take 500 (sc_markdown sc)
                    else take 500 (sc_content sc)),
         relevance_score = 0.8, cost_usd = COST_PER_PAGE, latency_ms = sc_latency_ms sc \<rparr>"

definition gather_deep :: "'w ports \<Rightarrow> IntelQuery \<Rightarrow> 'w \<Rightarrow> (exn + IntelResult) \<times> 'w" where
  "gather_deep p query w =
     (case exa_search p (query_text query) 10 w of
        (Inl e, w1) \<Rightarrow> (Inl e, w1)
      | (Inr exa_results, w1) \<Rightarrow>
          (case convert_search_results exa_results ''exa'' of
             Inl e \<Rightarrow> (Inl e, w1)
           | Inr srcs \<Rightarrow>
               (let cost = real (length exa_results) * EXA_COST_PER_RESULT;
                    urls_to_scrape = extract_scrape_urls exa_results
                in if urls_to_scrape \<noteq> []
                   then (case firecrawl_batch_scrape p urls_to_scrape w1 of
                           (Inl e, w2) \<Rightarrow> (Inl e, w2)
                         | (Inr scraped, w2) \<Rightarrow>
                             (case collect (map scraped_source scraped) of
                                Inl e \<Rightarrow> (Inl e, w2)
                              | Inr extra \<Rightarrow>
                                  (Inr (make_result query (deduplicate_sources (srcs @ extra)) DEEP
                                          (cost + real (length scraped) * COST_PER_PAGE)), w2)))
                   else (Inr (make_result query (deduplicate_sources srcs) DEEP cost), w1))))"

subsection \<open>\<open>gather_intel\<close>\<close>

text \<open>
  The orchestrator's own state: the cache (absent by default), keyed by the string
  that \<open>RedisCache.make_key\<close> hashes, and the types of the events it has emitted.
\<close>

record orchestrator =
  cache :: "(string \<Rightarrow> IntelResult option) option"
  orch_events :: "string list"

definition orchestrator_init :: orchestrator where
  "orchestrator_init = \<lparr> cache = None, orch_events = [] \<rparr>"

fun depth_value :: "IntelDepth \<Rightarrow> string" where
  "depth_value SHALLOW = ''SHALLOW''"
| "depth_value STANDARD = ''STANDARD''"
| "depth_value DEEP = ''DEEP''"

definition make_key :: "string \<Rightarrow> string \<Rightarrow> string" where
  "make_key query d = query @ '':'' @ d"

definition cache_get :: "orchestrator \<Rightarrow> string \<Rightarrow> IntelResult option" where
  "cache_get orch key = (case cache orch of None \<Rightarrow> None | Some store \<Rightarrow> store key)"

definition cache_set :: "string \<Rightarrow> IntelResult \<Rightarrow> orchestrator \<Rightarrow> orchestrator" where
  "cache_set key r orch =
     (case cache orch of
        None \<Rightarrow> orch
      | Some store \<Rightarrow> orch\<lparr>cache := Some (store(key \<mapsto> r))\<rparr>)"

definition orch_emit :: "string \<Rightarrow> orchestrator \<Rightarrow> orchestrator" where
  "orch_emit ev orch = orch\<lparr>orch_events := orch_events orch @ [ev]\<rparr>"

fun dispatch :: "'w ports \<Rightarrow> IntelQuery \<Rightarrow> 'w \<Rightarrow> (exn + IntelResult) \<times> 'w" where
  "dispatch p query w =
     (case depth query of
        SHALLOW \<Rightarrow> gather_shallow p query w
      | STANDARD \<Rightarrow> gather_standard p query w
      | DEEP \<Rightarrow> gather_deep p query w)"

text \<open>
  \<open>t0\<close> is the clock at entry, \<open>t1\<close> the clock when the result is stamped.
\<close>

definition gather_intel ::
  "'w ports \<Rightarrow> IntelQuery \<Rightarrow> real \<Rightarrow> real \<Rightarrow> orchestrator \<Rightarrow> 'w \<Rightarrow>
   (exn + IntelResult) \<times> orchestrator \<times> 'w"
where
  "gather_intel p query t0 t1 orch w =
     (let o1 = orch_emit ''query_started'' orch;
          cache_key = make_key (query_text query) (depth_value (depth query))
      in case cache_get o1 cache_key of
           Some hit \<Rightarrow>
             (Inr (hit\<lparr>cached := True, r_latency_ms := (t1 - t0) * 1000\<rparr>),
              orch_emit ''query_completed'' (orch_emit ''IntelGathered'' o1), w)
         | None \<Rightarrow>
             (case dispatch p query w of
                (Inl e, w1) \<Rightarrow> (Inl e, orch_emit ''error_occurred'' o1, w1)
              | (Inr result, w1) \<Rightarrow>
                  (let result1 = result\<lparr>r_latency_ms := (t1 - t0) * 1000\<rparr>;
                       o2 = cache_set cache_key result1 o1
                   in (Inr result1,
                       orch_emit ''query_completed'' (orch_emit ''IntelGathered'' o2), w1))))"

subsection \<open>The orchestrator over the real source clients\<close>

text \<open>
  What \<open>IntelOrchestrator()\<close> builds when no source is passed in, and what the
  integration tests build with a mocked HTTP client: the three clients of
  intel/sources, each against its HTTP backend.
\<close>

record clients =
  exa_client :: source_client
  tavily_client :: source_client
  firecrawl_client :: source_client

definition clients_init :: clients where
  "clients_init =
     \<lparr> exa_client = source_client_init ''exa'', tavily_client = source_client_init ''tavily'',
       firecrawl_client = source_client_init ''firecrawl'' \<rparr>"

record backends =
  exa_http :: "nat \<Rightarrow> exn + exa_item list http_response"
  tavily_http :: "nat \<Rightarrow> exn + tavily_item list http_response"
  firecrawl_http :: "string \<Rightarrow> nat \<Rightarrow> exn + firecrawl_page http_response"
  jitter_samples :: "nat \<Rightarrow> real"

definition client_ports :: "backends \<Rightarrow> real \<Rightarrow> real \<Rightarrow> clients ports" where
  "client_ports b t0 t1 =
     \<lparr> exa_search = (\<lambda>q n w.
         case ExaSource_search t0 t1 (exa_http b) (jitter_samples b) (exa_client w) of
           (out, c) \<Rightarrow> (out, w\<lparr>exa_client := c\<rparr>)),
       exa_is_rate_limited = (\<lambda>w. is_rate_limited t0 (exa_client w)),
       tavily_search = (\<lambda>q n w.
         case TavilySource_search t0 t1 (tavily_http b) (jitter_samples b) (tavily_client w) of
           (out, c) \<Rightarrow> (out, w\<lparr>tavily_client := c\<rparr>)),
       tavily_is_rate_limited = (\<lambda>w. is_rate_limited t0 (tavily_client w)),
       firecrawl_batch_scrape = (\<lambda>urls w.
         case FirecrawlSource_batch_scrape t0 t1 (firecrawl_http b) (jitter_samples b) urls
                (firecrawl_client w) of
           (pages, c) \<Rightarrow> (Inr pages, w\<lparr>firecrawl_client := c\<rparr>)) \<rparr>"

section \<open>Event bus (intel/events.py)\<close>

record EventEnvelope =
  event_id :: string
  event_type :: string
  source_module :: string
  envelope_correlation_id :: string
  payload :: "(string \<times> string) list"

text \<open>
  What awaiting a handler can do: return, raise an exception (a subclass of
  \<open>Exception\<close>), or be unwound by something that is not an \<open>Exception\<close>: cancellation
  of the task, a keyboard interrupt, an exit request. The clause \<open>except Exception\<close>
  catches the second and lets the third through.
\<close>

datatype base_exn = CancelledError | KeyboardInterrupt | SystemExit

datatype handler_outcome = Returned | Raised exn | RaisedBase base_exn

text \<open>
  A streaming queue (\<open>asyncio.Queue\<close>), with the identity of the Python object as a
  number. A queue whose \<open>maxsize\<close> is not positive is never full.
\<close>

record sse_queue =
  qid :: nat
  items :: "EventEnvelope list"
  maxsize :: int

text \<open>
  A handler is a coroutine that holds a reference to the bus, so besides ending in one
  of the three ways it may call \<open>subscribe\<close> and \<open>unsubscribe\<close> while it runs. A handler
  is its name (the identity of the Python function) and, for the envelope it is
  awaited with, its outcome and the calls it makes on the bus, in order. Nested calls
  of \<open>emit\<close> from inside a handler are left out.
\<close>

datatype handler =
  Handler (handler_name: string)
    (handler_run: "EventEnvelope \<Rightarrow> handler_outcome \<times> bus_action list")
and bus_action = Subscribe string handler | Unsubscribe string string

text \<open>
  The bus: \<open>_handlers\<close> (per event type, the handlers in subscription order) and
  \<open>_sse_queues\<close>; \<open>next_qid\<close> numbers the queues; \<open>calls\<close> records the handlers awaited so
  far and \<open>failures\<close> those for which \<open>log.exception\<close> was called, oldest first.
\<close>

record EventBus =
  handlers :: "(string \<times> handler list) list"
  sse_queues :: "sse_queue list"
  next_qid :: nat
  calls :: "string list"
  failures :: "string list"

definition EventBus_init :: EventBus where
  "EventBus_init = \<lparr> handlers = [], sse_queues = [], next_qid = 0, calls = [], failures = [] \<rparr>"

definition handlers_for :: "EventBus \<Rightarrow> string \<Rightarrow> handler list" where
  "handlers_for b ty = (case map_of (handlers b) ty of None \<Rightarrow> [] | Some hs \<Rightarrow> hs)"

definition subscribe :: "string \<Rightarrow> handler \<Rightarrow> EventBus \<Rightarrow> EventBus" where
  "subscribe ty h b = b\<lparr>handlers := AList.update ty (handlers_for b ty @ [h]) (handlers b)\<rparr>"

text \<open>\<open>unsubscribe\<close>: \<open>list.remove\<close> of the handler when it is subscribed.\<close>

fun remove_handler :: "string \<Rightarrow> handler list \<Rightarrow> handler list" where
  "remove_handler name [] = []"
| "remove_handler name (h # hs) =
     (if handler_name h = name then hs else h # remove_handler name hs)"

definition unsubscribe :: "string \<Rightarrow> string \<Rightarrow> EventBus \<Rightarrow> EventBus" where
  "unsubscribe ty name b =
     (case map_of (handlers b) ty of
        None \<Rightarrow> b
      | Some hs \<Rightarrow> b\<lparr>handlers := AList.update ty (remove_handler name hs) (handlers b)\<rparr>)"

fun apply_action :: "bus_action \<Rightarrow> EventBus \<Rightarrow> EventBus" where
  "apply_action (Subscribe ty h) b = subscribe ty h b"
| "apply_action (Unsubscribe ty name) b = unsubscribe ty name b"

text \<open>
  The dispatch loop of \<open>emit\<close> (lines 116-126): \<open>for handler in handlers\<close> runs over the
  list object stored in \<open>_handlers\<close> itself, not over a copy. Python's list iterator
  keeps an index and, at every step, reads the list as it is then: it stops when the
  index has reached the current length. \<open>subscribe\<close> appends to that same list and
  \<open>unsubscribe\<close> removes from it, so what a handler does to the subscriptions of the
  event's type changes which handlers the loop still reaches. A loop whose handlers
  keep subscribing further handlers never ends: the result \<open>None\<close>.
\<close>

partial_function (option) dispatch_loop ::
  "nat \<Rightarrow> EventEnvelope \<Rightarrow> EventBus \<Rightarrow> (base_exn option \<times> EventBus) option"
where
  "dispatch_loop i envelope b =
     (let hs = handlers_for b (event_type envelope) in
      if i < length hs
      then (case handler_run (hs ! i) envelope of
              (out, actions) \<Rightarrow>
                (let b1 = fold apply_action actions b;
                     b2 = b1\<lparr>calls := calls b1 @ [handler_name (hs ! i)]\<rparr>
                 in case out of
                      Returned \<Rightarrow> dispatch_loop (Suc i) envelope b2
                    | Raised e \<Rightarrow>
                        dispatch_loop (Suc i) envelope
                          (b2\<lparr>failures := failures b2 @ [handler_name (hs ! i)]\<rparr>)
                    | RaisedBase x \<Rightarrow> Some (Some x, b2)))
      else Some (None, b))"

definition full :: "sse_queue \<Rightarrow> bool" where
  "full q = (maxsize q > 0 \<and> int (length (items q)) \<ge> maxsize q)"

text \<open>\<open>put_nowait\<close> under \<open>except asyncio.QueueFull\<close>: a full queue drops the envelope.\<close>

definition offer :: "EventEnvelope \<Rightarrow> sse_queue \<Rightarrow> sse_queue" where
  "offer envelope q = (if full q then q else q\<lparr>items := items q @ [envelope]\<rparr>)"

text \<open>
  \<open>emit\<close>: the dispatch, then the offer to every streaming queue. What is not an
  \<open>Exception\<close> leaves \<open>emit\<close> before the queues are served.
\<close>

definition emit ::
  "EventEnvelope \<Rightarrow> EventBus \<Rightarrow> ((base_exn + EventEnvelope) \<times> EventBus) option"
where
  "emit envelope b =
     (case dispatch_loop 0 envelope b of
        None \<Rightarrow> None
      | Some (Some x, b1) \<Rightarrow> Some (Inl x, b1)
      | Some (None, b1) \<Rightarrow>
          Some (Inr envelope, b1\<lparr>sse_queues := map (offer envelope) (sse_queues b1)\<rparr>))"

text \<open>
  \<open>sse_subscribe\<close> up to its first \<open>await\<close>: a fresh queue of capacity 256 is appended.
  \<open>sse_release\<close> is its \<open>finally\<close> clause: \<open>list.remove\<close> of its own queue, which raises
  \<open>ValueError\<close> when the queue is no longer in the list.
\<close>

definition sse_subscribe :: "EventBus \<Rightarrow> nat \<times> EventBus" where
  "sse_subscribe b =
     (next_qid b,
      b\<lparr>sse_queues := sse_queues b @ [\<lparr> qid = next_qid b, items = [], maxsize = 256 \<rparr>],
        next_qid := next_qid b + 1\<rparr>)"

definition sse_release :: "nat \<Rightarrow> EventBus \<Rightarrow> (exn + unit) \<times> EventBus" where
  "sse_release k b =
     (if k \<in> set (map qid (sse_queues b))
      then (Inr (), b\<lparr>sse_queues := filter (\<lambda>q. qid q \<noteq> k) (sse_queues b)\<rparr>)
      else (Inl (OtherException ''ValueError''), b))"

definition sse_unsubscribe_all :: "EventBus \<Rightarrow> EventBus" where
  "sse_unsubscribe_all b = b\<lparr>sse_queues := []\<rparr>"

section \<open>Streaming emitter (backend/sse.py)\<close>

text \<open>
  The emitter: the bus, \<open>_queues\<close> (the session queues by session id) and, for every
  live session, the bus queue that its forwarder task reads.
\<close>

record SSEEventEmitter =
  bus :: EventBus
  session_queues :: "(string \<times> EventEnvelope list) list"
  forwarders :: "(string \<times> nat) list"

definition SSEEventEmitter_init :: "EventBus \<Rightarrow> SSEEventEmitter" where
  "SSEEventEmitter_init b = \<lparr> bus = b, session_queues = [], forwarders = [] \<rparr>"

text \<open>
  \<open>subscribe(session_id)\<close> up to its first \<open>yield\<close>: the session queue is registered and
  the forwarder task starts reading the bus subscription.
\<close>

definition session_open :: "string \<Rightarrow> SSEEventEmitter \<Rightarrow> SSEEventEmitter" where
  "session_open sid em =
     (case sse_subscribe (bus em) of
        (k, b1) \<Rightarrow>
          em\<lparr>bus := b1,
             session_queues := AList.update sid [] (session_queues em),
             forwarders := AList.update sid k (forwarders em)\<rparr>)"

text \<open>
  The \<open>finally\<close> clause of \<open>subscribe\<close> (lines 67-79), which runs when the consumer of
  the session goes away: both tasks are cancelled, \<open>bus.sse_unsubscribe_all()\<close> is
  awaited, the session queue is deleted. The cancelled forwarder then unwinds through
  the \<open>finally\<close> clause of \<open>sse_subscribe\<close>, and \<open>_forward_events\<close> swallows what that
  raises.
\<close>

definition session_teardown :: "string \<Rightarrow> SSEEventEmitter \<Rightarrow> SSEEventEmitter" where
  "session_teardown sid em =
     (let b1 = sse_unsubscribe_all (bus em);
          b2 = (case map_of (forwarders em) sid of
                  None \<Rightarrow> b1
                | Some k \<Rightarrow> snd (sse_release k b1))
      in em\<lparr>bus := b2,
            session_queues := AList.delete sid (session_queues em),
            forwarders := AList.delete sid (forwarders em)\<rparr>)"

text \<open>A session is subscribed when the queue its forwarder reads is one the bus fills.\<close>

definition subscribed :: "string \<Rightarrow> SSEEventEmitter \<Rightarrow> bool" where
  "subscribed sid em =
     (case map_of (forwarders em) sid of
        None \<Rightarrow> False
      | Some k \<Rightarrow> k \<in> set (map qid (sse_queues (bus em))))"

text \<open>What the bus has put so far into the queue that the session's forwarder reads.\<close>

definition pending :: "string \<Rightarrow> SSEEventEmitter \<Rightarrow> EventEnvelope list" where
  "pending sid em =
     (case map_of (forwarders em) sid of
        None \<Rightarrow> []
      | Some k \<Rightarrow> concat (map items (filter (\<lambda>q. qid q = k) (sse_queues (bus em)))))"

text \<open>An \<open>emit\<close> on the emitter's bus; one that never returns delivers nothing.\<close>

definition emit_via :: "EventEnvelope \<Rightarrow> SSEEventEmitter \<Rightarrow> SSEEventEmitter" where
  "emit_via envelope em =
     (case emit envelope (bus em) of
        None \<Rightarrow> em
      | Some (out, b1) \<Rightarrow> em\<lparr>bus := b1\<rparr>)"

section \<open>Vocabulary of the properties\<close>

subsection \<open>Retry runs\<close>

text \<open>
  The two classes of retried failures, and how many of each class the wrapped coroutine
  has produced among its first \<open>n\<close> calls.
\<close>

definition rl_failure :: "retry_config \<Rightarrow> exn + 'a \<Rightarrow> bool" where
  "rl_failure cfg out =
     (case out of Inl e \<Rightarrow> retryable_exceptions cfg e \<and> is_RateLimitError e | Inr v \<Rightarrow> False)"

definition other_failure :: "retry_config \<Rightarrow> exn + 'a \<Rightarrow> bool" where
  "other_failure cfg out =
     (case out of Inl e \<Rightarrow> retryable_exceptions cfg e \<and> \<not> is_RateLimitError e | Inr v \<Rightarrow> False)"

definition rl_failures :: "retry_config \<Rightarrow> (nat \<Rightarrow> exn + 'a) \<Rightarrow> nat \<Rightarrow> nat" where
  "rl_failures cfg fn n = length (filter (\<lambda>k. rl_failure cfg (fn k)) [1..<Suc n])"

definition other_failures :: "retry_config \<Rightarrow> (nat \<Rightarrow> exn + 'a) \<Rightarrow> nat \<Rightarrow> nat" where
  "other_failures cfg fn n = length (filter (\<lambda>k. other_failure cfg (fn k)) [1..<Suc n])"

text \<open>
  Call \<open>k\<close> failed in a way that is retried and its own class had budget left; call \<open>k\<close>
  ends the run: it succeeded, failed in a way that is never retried, or used up the
  budget of its own class.
\<close>

definition retried :: "retry_config \<Rightarrow> (nat \<Rightarrow> exn + 'a) \<Rightarrow> nat \<Rightarrow> bool" where
  "retried cfg fn k =
     (if rl_failure cfg (fn k) then int (rl_failures cfg fn k) < rate_limit_max_attempts cfg
      else other_failure cfg (fn k) \<and> int (other_failures cfg fn k) < max_attempts cfg)"

definition exhausted :: "retry_config \<Rightarrow> (nat \<Rightarrow> exn + 'a) \<Rightarrow> nat \<Rightarrow> bool" where
  "exhausted cfg fn k =
     (if rl_failure cfg (fn k) then rate_limit_max_attempts cfg \<le> int (rl_failures cfg fn k)
      else if other_failure cfg (fn k) then max_attempts cfg \<le> int (other_failures cfg fn k)
      else True)"

subsection \<open>Sources of a result\<close>

definition has_url :: "IntelSource \<Rightarrow> bool" where
  "has_url s = truthy_str (url s)"

definition no_duplicate_urls :: "IntelSource list \<Rightarrow> bool" where
  "no_duplicate_urls srcs = distinct (map url (filter has_url srcs))"

text \<open>
  \<open>srcs0\<close> is what a depth gathered before merging: the result's cost is the sum over
  \<open>srcs0\<close>, and its sources are \<open>srcs0\<close> itself or \<open>srcs0\<close> deduplicated.
\<close>

definition gathered :: "IntelResult \<Rightarrow> IntelSource list \<Rightarrow> bool" where
  "gathered r srcs0 =
     (total_cost_usd r = sum_list (map cost_usd srcs0) \<and>
      (sources r = srcs0 \<or> sources r = deduplicate_sources srcs0))"

text \<open>
  What the sources return to a depth handler, read off the handler's own calls
  (orchestrator.py lines 214, 225-242 and 254-272): the hits of the neural search, the
  hits of the news search and the scraped pages. A call that is skipped or fails
  contributes nothing.
\<close>

definition hits_of :: "exn + 'a list \<Rightarrow> 'a list" where
  "hits_of out = (case out of Inl e \<Rightarrow> [] | Inr rs \<Rightarrow> rs)"

definition returned ::
  "'w ports \<Rightarrow> IntelQuery \<Rightarrow> 'w \<Rightarrow> SearchResult list \<times> SearchResult list \<times> ScrapedContent list"
where
  "returned p query w =
     (case depth query of
        SHALLOW \<Rightarrow> (hits_of (fst (exa_search p (query_text query) 5 w)), [], [])
      | STANDARD \<Rightarrow>
          (let exa_run = (if \<not> exa_is_rate_limited p w
                          then exa_search p (query_text query) 10 w else (Inr [], w));
               tavily_run = (if \<not> tavily_is_rate_limited p w
                             then tavily_search p (query_text query) 5 (snd exa_run)
                             else (Inr [], snd exa_run))
           in (hits_of (fst exa_run), hits_of (fst tavily_run), []))
      | DEEP \<Rightarrow>
          (let exa_run = exa_search p (query_text query) 10 w;
               urls = extract_scrape_urls (hits_of (fst exa_run))
           in (hits_of (fst exa_run), [],
               if urls \<noteq> [] then hits_of (fst (firecrawl_batch_scrape p urls (snd exa_run)))
               else [])))"

text \<open>
  What the handlers charge for it: \<open>EXA_COST_PER_RESULT\<close> per neural-search hit,
  \<open>TAVILY_COST_PER_SEARCH\<close> once for a news search that returned anything,
  \<open>COST_PER_PAGE\<close> per scraped page.
\<close>

fun charged :: "SearchResult list \<times> SearchResult list \<times> ScrapedContent list \<Rightarrow> real" where
  "charged (exa_hits, tavily_hits, pages) =
     real (length exa_hits) * EXA_COST_PER_RESULT +
     (if tavily_hits \<noteq> [] then TAVILY_COST_PER_SEARCH else 0) +
     real (length pages) * COST_PER_PAGE"

text \<open>The URLs that deduplication looks at (the truthy ones), and the number of items.\<close>

fun returned_urls ::
  "SearchResult list \<times> SearchResult list \<times> ScrapedContent list \<Rightarrow> string option list"
where
  "returned_urls (exa_hits, tavily_hits, pages) =
     filter truthy_str
       (map sr_url exa_hits @ map sr_url tavily_hits @ map (\<lambda>sc. Some (sc_url sc)) pages)"

fun returned_count :: "SearchResult list \<times> SearchResult list \<times> ScrapedContent list \<Rightarrow> nat" where
  "returned_count (exa_hits, tavily_hits, pages) =
     length exa_hits + length tavily_hits + length pages"

text \<open>
  The result \<open>r\<close> was built from the returned items: they convert to sources, and these
  are what \<open>r\<close> gathered.
\<close>

definition built_from ::
  "IntelResult \<Rightarrow> SearchResult list \<times> SearchResult list \<times> ScrapedContent list \<Rightarrow> bool" where
  "built_from r ret =
     (case ret of (E, T, P) \<Rightarrow>
        (\<exists>es ts ps. convert_search_results E ''exa'' = Inr es \<and>
                    convert_search_results T ''tavily'' = Inr ts \<and>
                    collect (map scraped_source P) = Inr ps \<and>
                    gathered r (es @ ts @ ps)))"


subsection \<open>Handler outcomes\<close>




section \<open>Scenarios\<close>

text \<open>A wrapped coroutine that always fails, counting its invocations in the world.\<close>

definition failing_probe :: "nat \<Rightarrow> (exn + unit) \<times> nat" where
  "failing_probe w = (Inl (OtherException ''fail''), Suc w)"

text \<open>Successive calls through one breaker, at the given (entry, completion) times.\<close>

fun run_calls ::
  "(real \<times> real) list \<Rightarrow> ('w \<Rightarrow> (exn + 'a) \<times> 'w) \<Rightarrow> CircuitBreaker \<Rightarrow> 'w \<Rightarrow>
   (exn + 'a) list \<times> CircuitBreaker \<times> 'w"
where
  "run_calls [] fn cb w = ([], cb, w)"
| "run_calls (t # ts) fn cb w =
     (case CircuitBreaker_call (fst t) (snd t) fn cb w of
        (out, cb1, w1) \<Rightarrow>
          (case run_calls ts fn cb1 w1 of (outs, cb2, w2) \<Rightarrow> (out # outs, cb2, w2)))"

text \<open>
  A run of the retry loop: rate limit, server error, rate limit, server error, server
  error.
\<close>

definition mixed_failures :: "nat \<Rightarrow> exn + nat" where
  "mixed_failures k =
     (if k = 1 \<or> k = 3 then Inl (RateLimitError (Some 1)) else Inl (APIError (Some 500)))"

text \<open>
  Source objects that return fixed values, as the unit tests inject them
  (\<open>AsyncMock(spec=ExaSource)\<close> and so on); their world is empty.
\<close>

definition stub_ports ::
  "(exn + SearchResult list) \<Rightarrow> (exn + SearchResult list) \<Rightarrow> (exn + ScrapedContent list) \<Rightarrow>
   unit ports"
where
  "stub_ports exa_out tavily_out scrape_out =
     \<lparr> exa_search = (\<lambda>q n w. (exa_out, w)), exa_is_rate_limited = (\<lambda>w. False),
       tavily_search = (\<lambda>q n w. (tavily_out, w)), tavily_is_rate_limited = (\<lambda>w. False),
       firecrawl_batch_scrape = (\<lambda>urls w. (scrape_out, w)) \<rparr>"

definition hit :: "string \<Rightarrow> real \<Rightarrow> string \<Rightarrow> SearchResult" where
  "hit u score name =
     \<lparr> sr_url = Some u, sr_title = ''T'', sr_snippet = ''S'', sr_relevance_score = score,
       sr_source_name = name \<rparr>"

definition example_query :: "IntelDepth \<Rightarrow> IntelQuery" where
  "example_query d =
     \<lparr> query_id = ''q1'', query_text = ''Bitcoin ETF'', depth = d, max_sources = 10,
       cache_ttl_seconds = None, correlation_id = ''req-1'' \<rparr>"

text \<open>
  Standard depth, the neural and the news search returning one shared URL
  (scenario 2 of the specification).
\<close>

definition shared_url_ports :: "unit ports" where
  "shared_url_ports =
     stub_ports (Inr [hit ''https://shared/1'' 0.9 ''exa''])
       (Inr [hit ''https://shared/1'' 0.8 ''tavily'', hit ''https://news/2'' 0.85 ''tavily''])
       (Inr [])"

definition distinct_url_ports :: "unit ports" where
  "distinct_url_ports =
     stub_ports (Inr [hit ''https://a/1'' 0.9 ''exa''])
       (Inr [hit ''https://b/1'' 0.8 ''tavily'', hit ''https://news/2'' 0.85 ''tavily''])
       (Inr [])"

text \<open>
  The neural-search backend of the shallow happy path: HTTP 200 with three hits
  (tests/integration/test_intel_pipeline.py, \<open>EXA_RESPONSE\<close>).
\<close>

definition bitcoin_items :: "exa_item list" where
  "bitcoin_items =
     [ \<lparr> exa_url = Some ''https://example.com/btc-analysis'',
         exa_title = Some ''Bitcoin Market Analysis'',
         exa_text = Some ''Bitcoin price is expected to rise.'', exa_highlights = None,
         exa_score = Some 0.95 \<rparr>,
       \<lparr> exa_url = Some ''https://example.com/crypto-news'',
         exa_title = Some ''Crypto News Daily'',
         exa_text = Some ''Latest developments.'', exa_highlights = None,
         exa_score = Some 0.88 \<rparr>,
       \<lparr> exa_url = Some ''https://example.com/etf-update'',
         exa_title = Some ''ETF Application Update'',
         exa_text = Some ''SEC reviewing applications.'', exa_highlights = None,
         exa_score = Some 0.82 \<rparr> ]"

definition bitcoin_backends :: backends where
  "bitcoin_backends =
     \<lparr> exa_http = (\<lambda>k. Inr \<lparr> status_code = 200, retry_after_header = None,
                             body = bitcoin_items \<rparr>),
       tavily_http = (\<lambda>k. Inr \<lparr> status_code = 200, retry_after_header = None, body = [] \<rparr>),
       firecrawl_http = (\<lambda>u k. Inl (OtherException ''ConnectError'')),
       jitter_samples = (\<lambda>k. 0) \<rparr>"

text \<open>
  A backend that answers every request with HTTP 429 and \<open>Retry-After: 5\<close>, the mock of
  tests/unit/test_rate_limit_tracking.py (\<open>_mock_http_client({}, status_code=429)\<close>).
\<close>

definition answering_429 :: "'b \<Rightarrow> nat \<Rightarrow> exn + 'b http_response" where
  "answering_429 bdy k = Inr \<lparr> status_code = 429, retry_after_header = Some 5, body = bdy \<rparr>"

definition empty_page :: firecrawl_page where
  "empty_page = \<lparr> page_markdown = None, page_rawHtml = None, page_title = None \<rparr>"

text \<open>Two sources, the one without a URL scoring higher.\<close>

definition url_less_first :: "IntelSource list" where
  "url_less_first =
     [ \<lparr> source_name = ''exa'', url = None, title = ''A'', snippet = ''a'',
         relevance_score = 0.9, cost_usd = 0.0005, latency_ms = 0 \<rparr>,
       \<lparr> source_name = ''exa'', url = Some ''https://a'', title = ''B'', snippet = ''b'',
         relevance_score = 0.5, cost_usd = 0.0005, latency_ms = 0 \<rparr> ]"

text \<open>A bus with a failing and a returning handler and one streaming queue.\<close>

definition example_envelope :: EventEnvelope where
  "example_envelope =
     \<lparr> event_id = ''e1'', event_type = ''query_started'', source_module = ''intel.orchestrator'',
       envelope_correlation_id = ''req-1'', payload = [(''query_id'', ''q1'')] \<rparr>"

definition example_bus :: EventBus where
  "example_bus =
     snd (sse_subscribe
       (subscribe ''query_started'' (Handler ''second'' (\<lambda>e. (Returned, [])))
         (subscribe ''query_started''
            (Handler ''first'' (\<lambda>e. (Raised (OtherException ''boom''), [])))
            EventBus_init)))"

text \<open>
  The same bus, except that the first handler is a one-shot handler: it unsubscribes
  itself before it raises.
\<close>

definition one_shot_bus :: EventBus where
  "one_shot_bus =
     snd (sse_subscribe
       (subscribe ''query_started'' (Handler ''second'' (\<lambda>e. (Returned, [])))
         (subscribe ''query_started''
            (Handler ''first''
               (\<lambda>e. (Raised (OtherException ''boom''),
                      [Unsubscribe ''query_started'' ''first''])))
            EventBus_init)))"

text \<open>A bus whose first handler is cancelled while it is awaited.\<close>

definition cancelled_bus :: EventBus where
  "cancelled_bus =
     subscribe ''query_started'' (Handler ''late'' (\<lambda>e. (Returned, [])))
       (subscribe ''query_started''
          (Handler ''cancelled'' (\<lambda>e. (RaisedBase CancelledError, [])))
          EventBus_init)"

text \<open>Two live streaming sessions on a fresh bus.\<close>

definition two_sessions :: SSEEventEmitter where
  "two_sessions = session_open ''s2'' (session_open ''s1'' (SSEEventEmitter_init EventBus_init))"

text \<open>A wrapped coroutine that succeeds, and the breaker configuration of the unit tests.\<close>

definition succeeding_probe :: "nat \<Rightarrow> (exn + string) \<times> nat" where
  "succeeding_probe w = (Inr ''recovered'', Suc w)"

definition test_config :: CircuitBreakerConfig where
  "test_config =
     \<lparr> failure_threshold = 2, timeout_seconds = 0.05, half_open_max_calls = 1,
       failure_window_seconds = 60 \<rparr>"

section \<open>Retry engine: properties\<close>

lemmas retry_eval =
  on_retryable_def source_retry_config_def default_retry_config_def retry_init_def Let_def
  retry_delay_def backoff_delay_def uniform_def RATE_LIMIT_MAX_ATTEMPTS_def
  RATE_LIMIT_BASE_DELAY_def RATE_LIMIT_MAX_DELAY_def

lemma rl_failures_Suc:
  "rl_failures cfg fn (Suc n) =
     rl_failures cfg fn n + (if rl_failure cfg (fn (Suc n)) then 1 else 0)"
  by (simp add: rl_failures_def)

lemma other_failures_Suc:
  "other_failures cfg fn (Suc n) =
     other_failures cfg fn n + (if other_failure cfg (fn (Suc n)) then 1 else 0)"
  by (simp add: other_failures_def)

lemma on_retryable_total:
  "on_retryable cfg exc x st = Reraise st1 \<or> on_retryable cfg exc x st = SleepThenRetry d st1
   \<Longrightarrow> total_attempt st1 = total_attempt st"
  by (auto simp: on_retryable_def Let_def split: if_splits)

lemma on_retryable_counts:
  "on_retryable cfg exc x st = Reraise st1 \<or> on_retryable cfg exc x st = SleepThenRetry d st1
   \<Longrightarrow> rl_attempt st1 = rl_attempt st + (if is_RateLimitError exc then 1 else 0) \<and>
       other_attempt st1 = other_attempt st + (if is_RateLimitError exc then 0 else 1)"
  by (auto simp: on_retryable_def Let_def split: if_splits)

lemma on_retryable_Reraise:
  "on_retryable cfg exc x st = Reraise st1 \<Longrightarrow>
   (if is_RateLimitError exc then rate_limit_max_attempts cfg \<le> int (rl_attempt st1)
    else max_attempts cfg \<le> int (other_attempt st1))"
  by (auto simp: on_retryable_def Let_def split: if_splits)

lemma on_retryable_Sleep:
  "on_retryable cfg exc x st = SleepThenRetry d st1 \<Longrightarrow>
   (if is_RateLimitError exc then int (rl_attempt st1) < rate_limit_max_attempts cfg
    else int (other_attempt st1) < max_attempts cfg)"
  by (auto simp: on_retryable_def Let_def split: if_splits)

text \<open>
  The loop invariant: the two counters are the numbers of failures of their class
  among the calls made so far. From a state that satisfies it, the loop ends at a call
  that ends the run, returns that call's outcome, and every call before it was retried.
\<close>

lemma retry_loop_run:
  "retry_loop cfg fn u st = (res, st') \<Longrightarrow>
   rl_attempt st = rl_failures cfg fn (total_attempt st) \<Longrightarrow>
   other_attempt st = other_failures cfg fn (total_attempt st) \<Longrightarrow>
   total_attempt st < total_attempt st' \<and> res = fn (total_attempt st') \<and>
   rl_attempt st' = rl_failures cfg fn (total_attempt st') \<and>
   other_attempt st' = other_failures cfg fn (total_attempt st') \<and>
   exhausted cfg fn (total_attempt st') \<and>
   (\<forall>k. total_attempt st < k \<and> k < total_attempt st' \<longrightarrow> retried cfg fn k)"
proof (induction cfg fn u st rule: retry_loop.induct)
  case (1 cfg fn u st)
  let ?n = "Suc (total_attempt st)"
  let ?st0 = "st\<lparr>total_attempt := total_attempt st + 1\<rparr>"
  note unfold = retry_loop.simps[of cfg fn u st]
  show ?case
  proof (cases "fn ?n")
    case (Inr v)
    with "1.prems"(1) have "st' = ?st0" "res = Inr v" by (auto simp: unfold Let_def)
    with Inr "1.prems"(2,3) show ?thesis
      by (auto simp: exhausted_def rl_failure_def other_failure_def rl_failures_Suc
          other_failures_Suc)
  next
    case (Inl exc)
    show ?thesis
    proof (cases "retryable_exceptions cfg exc")
      case False
      with Inl "1.prems"(1) have "st' = ?st0" "res = Inl exc" by (auto simp: unfold Let_def)
      with Inl False "1.prems"(2,3) show ?thesis
        by (auto simp: exhausted_def rl_failure_def other_failure_def rl_failures_Suc
            other_failures_Suc)
    next
      case True
      have step: "total_attempt st1 = ?n \<and> rl_attempt st1 = rl_failures cfg fn ?n \<and>
                  other_attempt st1 = other_failures cfg fn ?n"
        if a: "on_retryable cfg exc (u ?n) ?st0 = Reraise st1 \<or>
               on_retryable cfg exc (u ?n) ?st0 = SleepThenRetry d st1" for st1 d
      proof -
        have t: "total_attempt st1 = ?n" using on_retryable_total[OF a] by simp
        show ?thesis
          using on_retryable_counts[OF a] t "1.prems"(2,3) Inl True
          by (simp add: rl_failures_Suc other_failures_Suc rl_failure_def other_failure_def)
      qed
      show ?thesis
      proof (cases "on_retryable cfg exc (u ?n) ?st0")
        case (Reraise st1)
        with True Inl "1.prems"(1) have eq: "st' = st1" "res = Inl exc"
          by (auto simp: unfold Let_def)
        from step[of st1] Reraise have s: "total_attempt st1 = ?n"
          "rl_attempt st1 = rl_failures cfg fn ?n" "other_attempt st1 = other_failures cfg fn ?n"
          by simp_all
        from on_retryable_Reraise[OF Reraise] s Inl True
        have "exhausted cfg fn ?n"
          by (auto simp: exhausted_def rl_failure_def other_failure_def split: if_splits)
        with eq s Inl show ?thesis by auto
      next
        case (SleepThenRetry d st1)
        with True Inl "1.prems"(1) have run: "retry_loop cfg fn u st1 = (res, st')"
          by (simp add: unfold Let_def)
        from step[of st1 d] SleepThenRetry have s: "total_attempt st1 = ?n"
          "rl_attempt st1 = rl_failures cfg fn ?n" "other_attempt st1 = other_failures cfg fn ?n"
          by simp_all
        from on_retryable_Sleep[OF SleepThenRetry] s Inl True
        have r: "retried cfg fn ?n"
          by (auto simp: retried_def rl_failure_def other_failure_def split: if_splits)
        have inv: "rl_attempt st1 = rl_failures cfg fn (total_attempt st1)"
          "other_attempt st1 = other_failures cfg fn (total_attempt st1)"
          using s by simp_all
        have IH: "total_attempt st1 < total_attempt st' \<and> res = fn (total_attempt st') \<and>
           rl_attempt st' = rl_failures cfg fn (total_attempt st') \<and>
           other_attempt st' = other_failures cfg fn (total_attempt st') \<and>
           exhausted cfg fn (total_attempt st') \<and>
           (\<forall>k. total_attempt st1 < k \<and> k < total_attempt st' \<longrightarrow> retried cfg fn k)"
          using "1.IH"[OF refl _ _ _ run inv] Inl True SleepThenRetry by simp
        have "\<forall>k. total_attempt st < k \<and> k < total_attempt st' \<longrightarrow> retried cfg fn k"
        proof (intro allI impI)
          fix k assume k: "total_attempt st < k \<and> k < total_attempt st'"
          show "retried cfg fn k"
          proof (cases "k = ?n")
            case True with r show ?thesis by simp
          next
            case False
            with k s(1) have "total_attempt st1 < k \<and> k < total_attempt st'" by simp
            with IH show ?thesis by blast
          qed
        qed
        with IH s(1) show ?thesis by simp
      qed
    qed
  qed
qed

lemma on_retryable_slept:
  "(on_retryable cfg exc x st = Reraise st1 \<longrightarrow> slept st1 = slept st) \<and>
   (on_retryable cfg exc x st = SleepThenRetry d st1 \<longrightarrow> slept st1 = slept st @ [d])"
  by (auto simp: on_retryable_def Let_def split: if_splits)

text \<open>One sleep between two consecutive calls, and none after the last call.\<close>

lemma retry_loop_sleeps:
  "retry_loop cfg fn u st = (res, st') \<Longrightarrow>
   length (slept st') + total_attempt st + 1 = length (slept st) + total_attempt st'"
proof (induction cfg fn u st rule: retry_loop.induct)
  case (1 cfg fn u st)
  let ?n = "Suc (total_attempt st)"
  let ?st0 = "st\<lparr>total_attempt := total_attempt st + 1\<rparr>"
  note unfold = retry_loop.simps[of cfg fn u st]
  show ?case
  proof (cases "fn ?n")
    case (Inr v)
    with "1.prems" have "st' = ?st0" by (auto simp: unfold Let_def)
    then show ?thesis by simp
  next
    case (Inl exc)
    show ?thesis
    proof (cases "retryable_exceptions cfg exc")
      case False
      with Inl "1.prems" have "st' = ?st0" by (auto simp: unfold Let_def)
      then show ?thesis by simp
    next
      case True
      show ?thesis
      proof (cases "on_retryable cfg exc (u ?n) ?st0")
        case (Reraise st1)
        with True Inl "1.prems" have "st' = st1" by (auto simp: unfold Let_def)
        moreover have "slept st1 = slept ?st0" using on_retryable_slept Reraise by blast
        moreover have "total_attempt st1 = total_attempt ?st0"
          using on_retryable_total[of cfg exc "u ?n" ?st0 st1] Reraise by simp
        ultimately show ?thesis by simp
      next
        case (SleepThenRetry d st1)
        with True Inl "1.prems" have run: "retry_loop cfg fn u st1 = (res, st')"
          by (simp add: unfold Let_def)
        have "length (slept st') + total_attempt st1 + 1 =
              length (slept st1) + total_attempt st'"
          using "1.IH"[OF refl _ _ _ run] Inl True SleepThenRetry by simp
        moreover have "slept st1 = slept ?st0 @ [d]"
          using on_retryable_slept SleepThenRetry by blast
        moreover have "total_attempt st1 = total_attempt ?st0"
          using on_retryable_total[of cfg exc "u ?n" ?st0 st1 d] SleepThenRetry by simp
        ultimately show ?thesis by simp
      qed
    qed
  qed
qed

lemma mixed_failures_run:
  "retry_with_backoff default_retry_config mixed_failures (\<lambda>k. 0) =
     (Inl (APIError (Some 500)),
      \<lparr> rl_attempt = 2, other_attempt = 3, total_attempt = 5, slept = [1, 1/2, 2, 1] \<rparr>)"
  by (simp add: retry_with_backoff_def retry_loop.simps[of default_retry_config mixed_failures]
      mixed_failures_def retry_eval)

text \<open>
  Claim C7, as stated, fails: with the arguments the source clients pass (jitter
  enabled), a first rate-limit failure carrying a retry delay of 10 seconds has a
  computed backoff of 2 seconds, and with the jitter sample 0 the loop sleeps 5
  seconds, less than the retry delay.
\<close>

theorem retry_after_floor_counterexample:
  "\<not> (\<forall>cfg r u st d st'.
         0 \<le> u \<and> u \<le> 1 \<and>
         backoff_delay cfg (RateLimitError (Some r)) (st\<lparr>rl_attempt := rl_attempt st + 1\<rparr>) \<le> r \<and>
         on_retryable cfg (RateLimitError (Some r)) u st = SleepThenRetry d st'
         \<longrightarrow> r \<le> d)"
proof
  assume a: "\<forall>cfg r u st d st'.
         0 \<le> u \<and> u \<le> 1 \<and>
         backoff_delay cfg (RateLimitError (Some r)) (st\<lparr>rl_attempt := rl_attempt st + 1\<rparr>) \<le> r \<and>
         on_retryable cfg (RateLimitError (Some r)) u st = SleepThenRetry d st'
         \<longrightarrow> r \<le> d"
  have b: "backoff_delay source_retry_config (RateLimitError (Some 10))
             (retry_init\<lparr>rl_attempt := rl_attempt retry_init + 1\<rparr>) \<le> 10"
    by (simp add: retry_eval)
  have c: "on_retryable source_retry_config (RateLimitError (Some 10)) 0 retry_init =
             SleepThenRetry 5 \<lparr>rl_attempt = 1, other_attempt = 0, total_attempt = 0, slept = [5]\<rparr>"
    by (simp add: retry_eval)
  from a[rule_format, of 0 source_retry_config 10 retry_init 5,
         OF conjI[OF _ conjI[OF _ conjI[OF b c]]]]
  show False by simp
qed

text \<open>
  Claim C7, amended: when a retried \<open>RateLimitError\<close> carries a non-zero retry delay \<open>r\<close>
  that is at least the computed backoff, the delay handed to \<open>asyncio.sleep\<close> is \<open>r\<close>
  itself when jitter is disabled, and \<open>uniform(0.5 r, 1.5 r)\<close> when jitter is enabled:
  at least \<open>r\<close> without jitter, and only at least \<open>r / 2\<close> with it.
\<close>

theorem retry_after_floor_amended:
  assumes "on_retryable cfg (RateLimitError (Some r)) u st = SleepThenRetry d st'"
      and "backoff_delay cfg (RateLimitError (Some r)) (st\<lparr>rl_attempt := rl_attempt st + 1\<rparr>) \<le> r"
      and "r \<noteq> 0"
  shows "d = (if jitter cfg then uniform (r * 0.5) (r * 1.5) u else r) \<and>
         slept st' = slept st @ [d] \<and>
         (\<not> jitter cfg \<longrightarrow> r \<le> d) \<and>
         (jitter cfg \<and> 0 \<le> u \<and> 0 \<le> r \<longrightarrow> r / 2 \<le> d)"
  using assms
  by (auto simp: on_retryable_def Let_def retry_delay_def uniform_def split: if_splits)

text \<open>
  Witness for claim C7 (amended): jitter disabled, first rate-limit failure, retry
  delay 10 against a backoff of 2; the loop sleeps 10.
\<close>

theorem retry_after_floor_amended_witness:
  "on_retryable (source_retry_config\<lparr>jitter := False\<rparr>) (RateLimitError (Some 10)) 0 retry_init
     = SleepThenRetry 10 \<lparr>rl_attempt = 1, other_attempt = 0, total_attempt = 0, slept = [10]\<rparr> \<and>
   backoff_delay (source_retry_config\<lparr>jitter := False\<rparr>) (RateLimitError (Some 10))
     (retry_init\<lparr>rl_attempt := rl_attempt retry_init + 1\<rparr>) \<le> 10 \<and>
   (10::real) \<noteq> 0 \<and>
   (10::real) = (if jitter (source_retry_config\<lparr>jitter := False\<rparr>)
                 then uniform (10 * 0.5) (10 * 1.5) 0 else 10)"
proof -
  have run: "on_retryable (source_retry_config\<lparr>jitter := False\<rparr>) (RateLimitError (Some 10)) 0
               retry_init
     = SleepThenRetry 10 \<lparr>rl_attempt = 1, other_attempt = 0, total_attempt = 0, slept = [10]\<rparr>"
    by (simp add: retry_eval)
  have b: "backoff_delay (source_retry_config\<lparr>jitter := False\<rparr>) (RateLimitError (Some 10))
     (retry_init\<lparr>rl_attempt := rl_attempt retry_init + 1\<rparr>) \<le> 10"
    by (simp add: retry_eval)
  have nz: "(10::real) \<noteq> 0" by simp
  from retry_after_floor_amended[OF run b nz] run b show ?thesis by simp
qed

text \<open>
  Claim C8: in a run of \<open>retry_with_backoff\<close>, the rate-limit counter is the number of
  retried \<open>RateLimitError\<close> failures and the API counter the number of other retried
  failures among the calls made; the run returns the outcome of its last call, which
  either is not a retried failure or has brought the counter of its own class to that
  class's budget; every earlier call was a retried failure that found budget left in
  its own class, whatever the other counter was; and the loop has slept once between
  two consecutive calls and not after the last one, so the final error is re-raised
  without a further delay. The default budgets are 5 and 3.
\<close>

theorem retry_budget_separation:
  assumes "retry_with_backoff cfg fn u = (res, st)"
  shows "rl_attempt st = rl_failures cfg fn (total_attempt st) \<and>
         other_attempt st = other_failures cfg fn (total_attempt st) \<and>
         res = fn (total_attempt st) \<and>
         exhausted cfg fn (total_attempt st) \<and>
         (\<forall>k. 1 \<le> k \<and> k < total_attempt st \<longrightarrow> retried cfg fn k) \<and>
         length (slept st) + 1 = total_attempt st \<and>
         rate_limit_max_attempts default_retry_config = 5 \<and>
         max_attempts default_retry_config = 3"
proof -
  have run: "retry_loop cfg fn u retry_init = (res, st)"
    using assms by (simp add: retry_with_backoff_def)
  have i1: "rl_attempt retry_init = rl_failures cfg fn (total_attempt retry_init)"
    and i2: "other_attempt retry_init = other_failures cfg fn (total_attempt retry_init)"
    by (simp_all add: retry_init_def rl_failures_def other_failures_def)
  from retry_loop_run[OF run i1 i2] retry_loop_sleeps[OF run]
  show ?thesis
    by (auto simp: retry_init_def default_retry_config_def RATE_LIMIT_MAX_ATTEMPTS_def)
qed

text \<open>
  Witness for claim C8: with the default budgets, the failures 429, 500, 429, 500, 500
  end at the fifth call, where the third server error exhausts the API budget of 3
  while only 2 of the 5 rate-limit attempts are used.
\<close>

theorem retry_budget_separation_witness:
  "retry_with_backoff default_retry_config mixed_failures (\<lambda>k. 0) =
     (Inl (APIError (Some 500)),
      \<lparr> rl_attempt = 2, other_attempt = 3, total_attempt = 5, slept = [1, 1/2, 2, 1] \<rparr>) \<and>
   rl_failures default_retry_config mixed_failures 5 = 2 \<and>
   other_failures default_retry_config mixed_failures 5 = 3 \<and>
   exhausted default_retry_config mixed_failures 5 \<and>
   retried default_retry_config mixed_failures 4"
  using retry_budget_separation[OF mixed_failures_run] mixed_failures_run by simp

section \<open>Circuit breaker: properties\<close>

lemmas cb_eval =
  CircuitBreaker_call_def state_property_def transition_to_def record_failure_def
  record_success_def prune_old_failures_def CircuitBreaker_init_def INTEL_API_CONFIG_def Let_def

text \<open>
  Entering HALF_OPEN leaves the probe counter as it was: \<open>_transition_to\<close> resets it only
  on the way to CLOSED.
\<close>

lemma transition_to_HALF_OPEN_keeps_counter:
  "half_open_calls (transition_to HALF_OPEN cb) = half_open_calls cb"
  by (simp add: transition_to_def Let_def)

lemma record_failure_keeps_counter:
  "half_open_calls (record_failure now cb) = half_open_calls cb"
  by (simp add: record_failure_def transition_to_def prune_old_failures_def Let_def)

text \<open>
  So once the timeout of an OPEN breaker has elapsed, a call is rejected without
  invoking the wrapped coroutine whenever the counter already stands at the limit.
\<close>

lemma half_open_rejects_when_counter_spent:
  assumes "cb_state cb = OPEN" and "timeout_seconds (config cb) \<le> now - opened_at cb"
      and "half_open_max_calls (config cb) \<le> int (half_open_calls cb)"
  shows "\<exists>cb'. CircuitBreaker_call now now' fn cb w = (Inl (CircuitOpenError 0), cb', w)"
  using assms by (simp add: CircuitBreaker_call_def state_property_def transition_to_def Let_def)

text \<open>
  Claim C6 does not hold of the code. A breaker with the configuration of the source
  clients (threshold 3, timeout 60 s, one probe) sees three failures at times 0, 1, 2
  and opens; at time 63 the first HALF_OPEN episode admits one probe, which fails and
  re-opens the breaker; at time 124 the timeout has elapsed again, the breaker enters
  HALF_OPEN a second time with the probe counter still at 1, and the next call is
  rejected with \<open>CircuitOpenError\<close> although no probe of this episode has been admitted:
  the wrapped coroutine has run four times, not five.
\<close>

theorem second_half_open_episode_rejects_probe:
  "run_calls [(0, 0), (1, 1), (2, 2), (63, 63), (124, 124)] failing_probe
     (CircuitBreaker_init ''exa'' INTEL_API_CONFIG) 0 =
   ([Inl (OtherException ''fail''), Inl (OtherException ''fail''), Inl (OtherException ''fail''),
     Inl (OtherException ''fail''), Inl (CircuitOpenError 0)],
    \<lparr> service_name = ''exa'', config = INTEL_API_CONFIG, cb_state = HALF_OPEN,
      failure_count = 1, failure_timestamps = [63], opened_at = 63, half_open_calls = 2,
      state_changes = [(CLOSED, OPEN), (OPEN, HALF_OPEN), (HALF_OPEN, OPEN), (OPEN, HALF_OPEN)] \<rparr>,
    4)"
  by (simp add: cb_eval failing_probe_def)

section \<open>Source clients: properties\<close>

lemma effective_call: "effective_def CircuitBreaker_class_body ''call'' = Some [(''fn'', False)]"
  by (simp add: effective_def_def CircuitBreaker_class_body_def)

lemma call_site_rejected: "\<not> binds [(''fn'', False)] (Suc 0) [''query_id'']"
  by (simp add: binds_def)

text \<open>The first definition of \<open>call\<close>, had it stayed in force, accepts the call site.\<close>

lemma first_call_definition_accepts:
  "binds [(''func'', False), (''query_id'', True)] (Suc 0) [''query_id'']"
  by (simp add: binds_def)

lemma source_call_TypeError:
  "source_call name parse finish t0 t1 http u c =
     (Inl TypeError,
      emit_event (''SourceQueried'', name, ''failed'')
        (emit_event (''source_querying'', name, ''started'') c))"
  by (simp add: source_call_def effective_call call_site_rejected Let_def on_exception_def)

text \<open>
  Claim C2: every \<open>ExaSource.search\<close>, \<open>TavilySource.search\<close> and
  \<open>FirecrawlSource.scrape\<close> raises \<open>TypeError\<close>, whatever the state of the client, the
  clock and the HTTP backend; the client ends with its two events emitted and nothing
  else changed, so no HTTP request has been issued and the breaker has recorded nothing.
\<close>

theorem source_calls_raise_TypeError:
  "ExaSource_search t0 t1 http1 u c =
     (Inl TypeError,
      emit_event (''SourceQueried'', ''exa'', ''failed'')
        (emit_event (''source_querying'', ''exa'', ''started'') c)) \<and>
   TavilySource_search t0 t1 http2 u c =
     (Inl TypeError,
      emit_event (''SourceQueried'', ''tavily'', ''failed'')
        (emit_event (''source_querying'', ''tavily'', ''started'') c)) \<and>
   FirecrawlSource_scrape x t0 t1 http3 u c =
     (Inl TypeError,
      emit_event (''SourceQueried'', ''firecrawl'', ''failed'')
        (emit_event (''source_querying'', ''firecrawl'', ''started'') c)) \<and>
   http_requests (emit_event ev2 (emit_event ev1 c)) = http_requests c \<and>
   circuit_breaker (emit_event ev2 (emit_event ev1 c)) = circuit_breaker c"
  by (simp add: ExaSource_search_def TavilySource_search_def FirecrawlSource_scrape_def
      source_call_TypeError emit_event_def)

text \<open>
  Witness for claim C2: a fresh neural-search client against a backend that would
  answer HTTP 200 with three hits.
\<close>

theorem source_calls_raise_TypeError_witness:
  "fst (ExaSource_search 0 1 (exa_http bitcoin_backends) (\<lambda>k. 0) (source_client_init ''exa''))
     = Inl TypeError \<and>
   http_requests (snd (ExaSource_search 0 1 (exa_http bitcoin_backends) (\<lambda>k. 0)
     (source_client_init ''exa''))) = 0"
  using source_calls_raise_TypeError[of 0 1 "exa_http bitcoin_backends" "\<lambda>k. 0"
      "source_client_init ''exa''"]
  by (simp add: source_client_init_def emit_event_def)

text \<open>
  Against a backend that answers 429, the request raises \<open>RateLimitError\<close> with the
  delay of the \<open>Retry-After\<close> header, and still does once the retry budget is spent.
\<close>

lemma request_rate_limited:
  "do_request parse (answering_429 bdy k) = Inl (RateLimitError (Some 5))"
  by (simp add: do_request_def answering_429_def)

lemma execute_request_rate_limited:
  "fst (execute_request parse (answering_429 bdy) (\<lambda>k. 0) c) = Inl (RateLimitError (Some 5))"
  by (simp add: execute_request_def retry_with_backoff_def request_rate_limited retry_eval
      budget_left_def split: prod.splits)

text \<open>
  The \<open>except\<close> clause, were a \<open>RateLimitError\<close> to reach it: \<open>rate_limited_until\<close> becomes
  \<open>now + r\<close> for a non-zero retry delay \<open>r\<close> and \<open>now + 60\<close> without one, and
  \<open>is_rate_limited\<close>, read at time \<open>t\<close>, is \<open>t < rate_limited_until\<close>.
\<close>

lemma except_clause_window:
  "rate_limited_until (on_exception name (RateLimitError ra) now c) =
     now + (case ra of None \<Rightarrow> 60 | Some r \<Rightarrow> if r = 0 then 60 else r) \<and>
   is_rate_limited t (on_exception name (RateLimitError ra) now c) =
     (t < now + (case ra of None \<Rightarrow> 60 | Some r \<Rightarrow> if r = 0 then 60 else r)) \<and>
   is_rate_limited t c = (t < rate_limited_until c)"
  by (cases ra) (simp_all add: on_exception_def emit_event_def is_rate_limited_def)

text \<open>
  No \<open>RateLimitError\<close> reaches it: the call of the breaker fails before the request is
  made, so no search or scrape moves \<open>rate_limited_until\<close>.
\<close>

lemma source_call_keeps_window:
  "rate_limited_until (snd (source_call name parse finish t0 t1 http u c)) = rate_limited_until c"
  by (simp add: source_call_TypeError emit_event_def)

text \<open>
  Claim C5 does not hold of the code. Each of the three clients, fresh, is called at time 100
  against a backend that answers 429 with \<open>Retry-After: 5\<close>, the call ending at time
  101. The search (or scrape) raises \<open>TypeError\<close>, not \<open>RateLimitError\<close>, no request has
  been made and the client is not rate-limited afterwards, where the claim has it
  rate-limited for the next 60 seconds (and the repository's tests
  \<open>test_exa_marks_rate_limited_on_429\<close>, \<open>test_tavily_marks_rate_limited_on_429\<close> and
  \<open>test_firecrawl_marks_rate_limited_on_429\<close> expect \<open>RateLimitError\<close> and a rate-limited
  client).
\<close>

theorem rate_limited_backend_leaves_client_unmarked:
  "fst (ExaSource_search 100 101 (answering_429 []) (\<lambda>k. 0) (source_client_init ''exa''))
     = Inl TypeError \<and>
   \<not> is_rate_limited 101
       (snd (ExaSource_search 100 101 (answering_429 []) (\<lambda>k. 0)
          (source_client_init ''exa''))) \<and>
   http_requests
       (snd (ExaSource_search 100 101 (answering_429 []) (\<lambda>k. 0)
          (source_client_init ''exa''))) = 0 \<and>
   fst (TavilySource_search 100 101 (answering_429 []) (\<lambda>k. 0) (source_client_init ''tavily''))
     = Inl TypeError \<and>
   \<not> is_rate_limited 101
       (snd (TavilySource_search 100 101 (answering_429 []) (\<lambda>k. 0)
          (source_client_init ''tavily''))) \<and>
   fst (FirecrawlSource_scrape ''https://example.com'' 100 101 (answering_429 empty_page)
          (\<lambda>k. 0) (source_client_init ''firecrawl''))
     = Inl TypeError \<and>
   \<not> is_rate_limited 101
       (snd (FirecrawlSource_scrape ''https://example.com'' 100 101 (answering_429 empty_page)
          (\<lambda>k. 0) (source_client_init ''firecrawl'')))"
  by (simp add: ExaSource_search_def TavilySource_search_def FirecrawlSource_scrape_def
      source_call_TypeError emit_event_def source_client_init_def is_rate_limited_def)

section \<open>Orchestrator: properties\<close>

lemmas orch_eval =
  gather_intel_def gather_shallow_def gather_standard_def gather_deep_def stub_ports_def hit_def
  example_query_def orchestrator_init_def orch_emit_def cache_get_def cache_set_def make_key_def
  convert_search_results_def IntelSource_new_def make_result_def deduplicate_sources_def
  EXA_COST_PER_RESULT_def TAVILY_COST_PER_SEARCH_def COST_PER_PAGE_def Let_def

subsection \<open>Ordering\<close>

lemma deduplicate_sources_sorted:
  "sorted_wrt (\<lambda>a b. relevance_score b \<le> relevance_score a) (deduplicate_sources srcs)"
proof -
  obtain seen no_url where d: "dedup_loop srcs [] [] = (seen, no_url)"
    by (cases "dedup_loop srcs [] []")
  have "sorted (map (\<lambda>s. - relevance_score s)
          (sort_key (\<lambda>s. - relevance_score s) (map snd seen @ no_url)))"
    by (rule sorted_sort_key)
  then have "sorted_wrt (\<lambda>a b. - relevance_score a \<le> - relevance_score b)
          (sort_key (\<lambda>s. - relevance_score s) (map snd seen @ no_url))"
    by (simp add: sorted_wrt_map)
  then show ?thesis by (simp add: deduplicate_sources_def d)
qed

lemma url_less_first_kept: "deduplicate_sources url_less_first = url_less_first"
  by (simp add: deduplicate_sources_def url_less_first_def)

text \<open>
  Claim C4, as stated, fails: the merge step sorts URL-less sources together with the
  others, so a URL-less source of score 0.9 is placed before a URL-bearing source of
  score 0.5.
\<close>

theorem ordering_counterexample:
  "\<not> (\<forall>srcs.
         deduplicate_sources srcs =
           filter has_url (deduplicate_sources srcs) @
           filter (\<lambda>s. \<not> has_url s) (deduplicate_sources srcs) \<and>
         sorted_wrt (\<lambda>a b. relevance_score b \<le> relevance_score a)
           (filter has_url (deduplicate_sources srcs)))"
proof
  assume "\<forall>srcs.
         deduplicate_sources srcs =
           filter has_url (deduplicate_sources srcs) @
           filter (\<lambda>s. \<not> has_url s) (deduplicate_sources srcs) \<and>
         sorted_wrt (\<lambda>a b. relevance_score b \<le> relevance_score a)
           (filter has_url (deduplicate_sources srcs))"
  then have "deduplicate_sources url_less_first =
           filter has_url (deduplicate_sources url_less_first) @
           filter (\<lambda>s. \<not> has_url s) (deduplicate_sources url_less_first)"
    by blast
  then show False
    by (simp add: url_less_first_kept) (simp add: url_less_first_def has_url_def)
qed

text \<open>
  Claim C4, amended: every list produced by the merge step is, as a whole, in
  non-increasing \<open>relevance_score\<close> order, URL-less sources included (they are placed by
  their score, not after the URL-bearing ones); in particular its URL-bearing sources
  are in non-increasing \<open>relevance_score\<close> order.
\<close>

theorem ordering_amended:
  "sorted_wrt (\<lambda>a b. relevance_score b \<le> relevance_score a) (deduplicate_sources srcs) \<and>
   sorted_wrt (\<lambda>a b. relevance_score b \<le> relevance_score a)
     (filter has_url (deduplicate_sources srcs))"
  using deduplicate_sources_sorted[of srcs] by (simp add: sorted_wrt_filter)

text \<open>
  Witness for claim C4 (amended): the two sources above, handed over with the
  lower-scoring, URL-bearing one first, come out in score order.
\<close>

theorem ordering_amended_witness:
  "deduplicate_sources (rev url_less_first) = url_less_first \<and>
   sorted_wrt (\<lambda>a b. relevance_score b \<le> relevance_score a)
     (deduplicate_sources (rev url_less_first))"
proof -
  have "deduplicate_sources (rev url_less_first) = url_less_first"
    by (simp add: deduplicate_sources_def url_less_first_def)
  with ordering_amended[of "rev url_less_first"] show ?thesis by simp
qed

subsection \<open>Deduplication keeps everything when no URL repeats\<close>

lemma update_fresh: "k \<notin> fst ` set al \<Longrightarrow> AList.update k v al = al @ [(k, v)]"
  by (induction al) auto

lemma map_of_fresh: "k \<notin> fst ` set al \<Longrightarrow> map_of al k = None"
  by (simp add: map_of_eq_None_iff)

lemma dedup_loop_distinct:
  "distinct (map url (filter has_url srcs)) \<Longrightarrow>
   (\<forall>s \<in> set srcs. has_url s \<longrightarrow> the (url s) \<notin> fst ` set seen) \<Longrightarrow>
   dedup_loop srcs seen no_url =
     (seen @ map (\<lambda>s. (the (url s), s)) (filter has_url srcs),
      no_url @ filter (\<lambda>s. \<not> has_url s) srcs)"
proof (induction srcs arbitrary: seen no_url)
  case Nil
  then show ?case by simp
next
  case (Cons s rest)
  show ?case
  proof (cases "has_url s")
    case False
    with Cons.prems have "dedup_loop rest seen (no_url @ [s]) =
     (seen @ map (\<lambda>s. (the (url s), s)) (filter has_url rest),
      (no_url @ [s]) @ filter (\<lambda>s. \<not> has_url s) rest)"
      by (intro Cons.IH) auto
    moreover from False have "\<not> truthy_str (url s)" by (simp add: has_url_def)
    ultimately show ?thesis using False by simp
  next
    case True
    then obtain k where k: "url s = Some k" "k \<noteq> []"
      by (cases "url s") (auto simp: has_url_def)
    from Cons.prems(2) True have "the (url s) \<notin> fst ` set seen" by simp
    with k have fresh: "k \<notin> fst ` set seen" by simp
    have d: "distinct (map url (filter has_url rest))" using Cons.prems(1) True by simp
    have nk: "\<forall>t \<in> set rest. has_url t \<longrightarrow> the (url t) \<notin> fst ` set (seen @ [(k, s)])"
    proof (intro ballI impI)
      fix t assume t: "t \<in> set rest" "has_url t"
      then obtain k' where k': "url t = Some k'" by (cases "url t") (auto simp: has_url_def)
      from Cons.prems(1) True have "url s \<notin> url ` {x \<in> set rest. has_url x}" by simp
      moreover from t have "t \<in> {x \<in> set rest. has_url x}" by simp
      then have "url t \<in> url ` {x \<in> set rest. has_url x}" by (rule imageI)
      ultimately have "url t \<noteq> url s" by metis
      with k k' have "k' \<noteq> k" by simp
      moreover from Cons.prems(2) t have "the (url t) \<notin> fst ` set seen" by simp
      with k' have "k' \<notin> fst ` set seen" by simp
      ultimately show "the (url t) \<notin> fst ` set (seen @ [(k, s)])" using k' by auto
    qed
    have "dedup_loop rest (seen @ [(k, s)]) no_url =
      ((seen @ [(k, s)]) @ map (\<lambda>s. (the (url s), s)) (filter has_url rest),
      no_url @ filter (\<lambda>s. \<not> has_url s) rest)"
      using d nk by (rule Cons.IH)
    moreover from True have "truthy_str (url s)" by (simp add: has_url_def)
    ultimately show ?thesis using True k fresh
      by (simp add: map_of_fresh update_fresh)
  qed
qed

lemma dedup_distinct_mset:
  assumes "no_duplicate_urls srcs"
  shows "mset (deduplicate_sources srcs) = mset srcs"
proof -
  have "dedup_loop srcs [] [] =
     ([] @ map (\<lambda>s. (the (url s), s)) (filter has_url srcs),
      [] @ filter (\<lambda>s. \<not> has_url s) srcs)"
    using assms by (intro dedup_loop_distinct) (auto simp: no_duplicate_urls_def)
  then show ?thesis
    by (simp add: deduplicate_sources_def comp_def)
qed

lemma sum_cost_mset:
  assumes "mset xs = mset ys"
  shows "sum_list (map cost_usd xs) = sum_list (map cost_usd ys)"
proof -
  from assms have "sum_mset (image_mset cost_usd (mset xs)) =
                   sum_mset (image_mset cost_usd (mset ys))"
    by simp
  then show ?thesis by (metis mset_map sum_mset_sum_list)
qed

subsection \<open>Cost\<close>

lemma IntelSource_new_Inr: "IntelSource_new s = Inr s' \<Longrightarrow> s' = s"
  by (auto simp: IntelSource_new_def split: if_splits)

lemma collect_new:
  "collect (map (\<lambda>x. IntelSource_new (g x)) xs) = Inr vs \<Longrightarrow> vs = map g xs"
proof (induction xs arbitrary: vs)
  case Nil
  then show ?case by simp
next
  case (Cons x xs)
  then show ?case by (auto split: sum.splits dest: IntelSource_new_Inr)
qed

text \<open>
  The per-source costs of a converted list add up to what the orchestrator charges for
  that source: the price per result times the count for the neural search, the flat
  fee for a non-empty news search.
\<close>

lemma convert_cost:
  assumes "convert_search_results rs name = Inr srcs"
  shows "sum_list (map cost_usd srcs) =
          (if name = ''exa'' then real (length rs) * EXA_COST_PER_RESULT
           else if rs \<noteq> [] then TAVILY_COST_PER_SEARCH else 0)"
proof -
  let ?c = "(if name = ''exa'' then EXA_COST_PER_RESULT
             else TAVILY_COST_PER_SEARCH / real (max (length rs) 1))"
  let ?g = "\<lambda>r. \<lparr> source_name = name, url = sr_url r, title = sr_title r,
                          snippet = sr_snippet r, relevance_score = sr_relevance_score r,
                          cost_usd = ?c, latency_ms = 0 \<rparr>"
  from assms have "srcs = map ?g rs"
    unfolding convert_search_results_def Let_def by (rule collect_new)
  then have "sum_list (map cost_usd srcs) = real (length rs) * ?c"
    by (simp add: comp_def sum_list_triv)
  then show ?thesis by (cases rs) (auto simp: max_def)
qed

lemma scraped_cost:
  assumes "collect (map scraped_source scraped) = Inr extra"
  shows "sum_list (map cost_usd extra) = real (length scraped) * COST_PER_PAGE"
proof -
  from assms have "extra = map (\<lambda>sc. \<lparr> source_name = ''firecrawl'', url = Some (sc_url sc),
         title = sc_title sc,
         snippet = (if sc_markdown sc \<noteq> [] then take 500 (sc_markdown sc)
                    else take 500 (sc_content sc)),
         relevance_score = 0.8, cost_usd = COST_PER_PAGE, latency_ms = sc_latency_ms sc \<rparr>) scraped"
    unfolding scraped_source_def by (rule collect_new)
  then show ?thesis by (simp add: comp_def sum_list_triv)
qed

lemma no_duplicate_urls_iff:
  "no_duplicate_urls srcs = distinct (filter truthy_str (map url srcs))"
proof -
  have "filter has_url srcs = filter (truthy_str \<circ> url) srcs"
    by (rule filter_cong) (simp_all add: has_url_def)
  then show ?thesis by (simp add: no_duplicate_urls_def filter_map)
qed

lemma convert_urls:
  assumes "convert_search_results rs name = Inr srcs"
  shows "map url srcs = map sr_url rs"
proof -
  let ?c = "(if name = ''exa'' then EXA_COST_PER_RESULT
             else TAVILY_COST_PER_SEARCH / real (max (length rs) 1))"
  let ?g = "\<lambda>r. \<lparr> source_name = name, url = sr_url r, title = sr_title r,
                          snippet = sr_snippet r, relevance_score = sr_relevance_score r,
                          cost_usd = ?c, latency_ms = 0 \<rparr>"
  from assms have "srcs = map ?g rs"
    unfolding convert_search_results_def Let_def by (rule collect_new)
  then show ?thesis by (simp add: comp_def)
qed

lemma scraped_urls:
  assumes "collect (map scraped_source pages) = Inr extra"
  shows "map url extra = map (\<lambda>sc. Some (sc_url sc)) pages"
proof -
  from assms have "extra = map (\<lambda>sc. \<lparr> source_name = ''firecrawl'', url = Some (sc_url sc),
         title = sc_title sc,
         snippet = (if sc_markdown sc \<noteq> [] then take 500 (sc_markdown sc)
                    else take 500 (sc_content sc)),
         relevance_score = 0.8, cost_usd = COST_PER_PAGE, latency_ms = sc_latency_ms sc \<rparr>) pages"
    unfolding scraped_source_def by (rule collect_new)
  then show ?thesis by (simp add: comp_def)
qed

lemma convert_empty: "convert_search_results [] name = Inr []"
  by (simp add: convert_search_results_def)

lemma gathered_latency: "gathered (r\<lparr>r_latency_ms := x\<rparr>) srcs0 = gathered r srcs0"
  by (simp add: gathered_def)

text \<open>Each depth handler builds its result from what the sources returned to it.\<close>

lemma gather_shallow_built:
  assumes "gather_shallow p query w = (Inr r, w')" and "depth query = SHALLOW"
  shows "built_from r (returned p query w)"
proof -
  from assms(1) obtain rs w1 srcs where
    a: "exa_search p (query_text query) 5 w = (Inr rs, w1)"
    "convert_search_results rs ''exa'' = Inr srcs"
    "r = make_result query srcs SHALLOW (real (length rs) * EXA_COST_PER_RESULT)"
    by (auto simp: gather_shallow_def split: prod.splits sum.splits)
  with convert_cost[of rs "''exa''" srcs] have "gathered r (srcs @ [] @ [])"
    by (simp add: gathered_def make_result_def)
  with a assms(2) show ?thesis
    by (auto simp: built_from_def returned_def hits_of_def convert_empty)
qed

lemma gather_standard_built:
  assumes "gather_standard p query w = (Inr r, w')" and "depth query = STANDARD"
  shows "built_from r (returned p query w)"
proof -
  define exa_run where "exa_run = (if \<not> exa_is_rate_limited p w
                          then exa_search p (query_text query) 10 w else (Inr [], w))"
  define tavily_run where "tavily_run = (if \<not> tavily_is_rate_limited p w
                             then tavily_search p (query_text query) 5 (snd exa_run)
                             else (Inr [], snd exa_run))"
  define E where "E = hits_of (fst exa_run)"
  define T where "T = hits_of (fst tavily_run)"
  have ret: "returned p query w = (E, T, [])"
    using assms(2) by (simp add: returned_def Let_def exa_run_def tavily_run_def E_def T_def)
  from assms(1) obtain es tss where
    c: "convert_search_results E ''exa'' = Inr es"
    "convert_search_results T ''tavily'' = Inr tss"
    "r = make_result query (deduplicate_sources (es @ tss)) STANDARD
           (real (length E) * EXA_COST_PER_RESULT +
            (if T \<noteq> [] then TAVILY_COST_PER_SEARCH else 0))"
    unfolding gather_standard_def Let_def E_def T_def exa_run_def tavily_run_def hits_of_def
    by (auto split: prod.splits sum.splits if_splits)
  with convert_cost[of E "''exa''" es] convert_cost[of T "''tavily''" tss]
  have "gathered r (es @ tss @ [])"
    by (simp add: gathered_def make_result_def)
  with c ret show ?thesis by (auto simp: built_from_def)
qed

lemma gather_deep_built:
  assumes "gather_deep p query w = (Inr r, w')" and "depth query = DEEP"
  shows "built_from r (returned p query w)"
proof -
  from assms(1) obtain rs w1 srcs where
    a: "exa_search p (query_text query) 10 w = (Inr rs, w1)"
    "convert_search_results rs ''exa'' = Inr srcs"
    by (auto simp: gather_deep_def split: prod.splits sum.splits)
  show ?thesis
  proof (cases "extract_scrape_urls rs \<noteq> []")
    case False
    with assms(1) a have "r = make_result query (deduplicate_sources srcs) DEEP
                             (real (length rs) * EXA_COST_PER_RESULT)"
      by (auto simp: gather_deep_def Let_def)
    with convert_cost[of rs "''exa''" srcs] a have "gathered r (srcs @ [] @ [])"
      by (simp add: gathered_def make_result_def)
    moreover from False a assms(2) have "returned p query w = (rs, [], [])"
      by (simp add: returned_def Let_def hits_of_def)
    ultimately show ?thesis using a by (auto simp: built_from_def convert_empty)
  next
    case True
    with assms(1) a obtain scraped extra w2 where
      b: "firecrawl_batch_scrape p (extract_scrape_urls rs) w1 = (Inr scraped, w2)"
      "collect (map scraped_source scraped) = Inr extra"
      "r = make_result query (deduplicate_sources (srcs @ extra)) DEEP
            (real (length rs) * EXA_COST_PER_RESULT + real (length scraped) * COST_PER_PAGE)"
      by (auto simp: gather_deep_def Let_def split: prod.splits sum.splits)
    with convert_cost[of rs "''exa''" srcs] a scraped_cost[of scraped extra]
    have "gathered r (srcs @ [] @ extra)"
      by (simp add: gathered_def make_result_def)
    moreover from True a b assms(2) have "returned p query w = (rs, [], scraped)"
      by (simp add: returned_def Let_def hits_of_def)
    ultimately show ?thesis using a b by (auto simp: built_from_def convert_empty)
  qed
qed

lemma dispatch_built:
  assumes "dispatch p query w = (Inr r, w')"
  shows "built_from r (returned p query w)"
proof (cases "depth query")
  case SHALLOW
  with assms have "gather_shallow p query w = (Inr r, w')" by simp
  then show ?thesis using SHALLOW by (rule gather_shallow_built)
next
  case STANDARD
  with assms have "gather_standard p query w = (Inr r, w')" by simp
  then show ?thesis using STANDARD by (rule gather_standard_built)
next
  case DEEP
  with assms have "gather_deep p query w = (Inr r, w')" by simp
  then show ?thesis using DEEP by (rule gather_deep_built)
qed

lemma built_from_latency: "built_from (r\<lparr>r_latency_ms := x\<rparr>) ret = built_from r ret"
  by (simp add: built_from_def gathered_latency split: prod.splits)

lemma shared_url_run:
  "\<exists>r orch'. gather_intel shared_url_ports (example_query STANDARD) 0 1 orchestrator_init () =
                (Inr r, orch', ()) \<and>
     map (\<lambda>s. (source_name s, url s, relevance_score s)) (sources r) =
       [(''exa'', Some ''https://shared/1'', 0.9), (''tavily'', Some ''https://news/2'', 0.85)] \<and>
     map cost_usd (sources r) = [0.0005, 0.005] \<and>
     total_cost_usd r = 0.0105"
  by (simp add: shared_url_ports_def orch_eval)

lemma distinct_url_run:
  "\<exists>r orch'. gather_intel distinct_url_ports (example_query STANDARD) 0 1 orchestrator_init () =
                (Inr r, orch', ()) \<and>
     map (\<lambda>s. (source_name s, url s, relevance_score s)) (sources r) =
       [(''exa'', Some ''https://a/1'', 0.9), (''tavily'', Some ''https://news/2'', 0.85),
        (''tavily'', Some ''https://b/1'', 0.8)] \<and>
     map cost_usd (sources r) = [0.0005, 0.005, 0.005] \<and>
     total_cost_usd r = 0.0105"
  by (simp add: distinct_url_ports_def orch_eval)

text \<open>
  In the first of the two runs the sources returned three hits, two of them under one
  URL, and the charge for what they returned is the whole 0.0105.
\<close>

lemma shared_url_charge:
  "returned_count (returned shared_url_ports (example_query STANDARD) ()) = 3 \<and>
   \<not> distinct (returned_urls (returned shared_url_ports (example_query STANDARD) ())) \<and>
   charged (returned shared_url_ports (example_query STANDARD) ()) = 0.0105"
  by (simp add: returned_def hits_of_def shared_url_ports_def orch_eval)

text \<open>
  Claim C3, as stated, fails: at Standard depth, with the neural search returning
  \<open>https://shared/1\<close> (score 0.9) and the news search returning \<open>https://shared/1\<close>
  (score 0.8) and \<open>https://news/2\<close> (score 0.85), the result keeps two sources costing
  0.0005 and 0.005 while \<open>total_cost_usd\<close> is 0.0105: the cost of the dropped duplicate
  stays in the total.
\<close>

theorem cost_sum_counterexample:
  "\<not> (\<forall>(p :: unit ports) query t0 t1 orch w r orch' w'.
         gather_intel p query t0 t1 orch w = (Inr r, orch', w') \<longrightarrow>
         \<bar>total_cost_usd r - sum_list (map cost_usd (sources r))\<bar> < 1 / 10 ^ 9)"
proof
  assume a: "\<forall>(p :: unit ports) query t0 t1 orch w r orch' w'.
         gather_intel p query t0 t1 orch w = (Inr r, orch', w') \<longrightarrow>
         \<bar>total_cost_usd r - sum_list (map cost_usd (sources r))\<bar> < 1 / 10 ^ 9"
  from shared_url_run obtain r orch' where
    run: "gather_intel shared_url_ports (example_query STANDARD) 0 1 orchestrator_init () =
            (Inr r, orch', ())"
    and costs: "map cost_usd (sources r) = [0.0005, 0.005]" "total_cost_usd r = 0.0105"
    by (elim exE conjE)
  from a run have "\<bar>total_cost_usd r - sum_list (map cost_usd (sources r))\<bar> < 1 / 10 ^ 9"
    by blast
  with costs show False by simp
qed

text \<open>
  Claim C3, amended: for every Result that \<open>gather_intel\<close> computes on a cache miss, at
  any depth, \<open>total_cost_usd\<close> is within \<open>1e-9\<close> of the charge for everything the sources
  returned (0.0005 per neural-search hit, 0.01 for a news search that returned
  anything, 0.001 per scraped page), whether or not deduplication then drops some of
  it; and when the returned hits and pages carry pairwise distinct URLs, no source is
  dropped and \<open>total_cost_usd\<close> is within \<open>1e-9\<close> of the sum of \<open>cost_usd\<close> over the
  Result's sources. (Costs are real numbers here; the tolerance is the spec's.)
\<close>

theorem cost_sum_amended:
  assumes run: "gather_intel p query t0 t1 orch w = (Inr r, orch', w')"
      and miss: "cache_get orch (make_key (query_text query) (depth_value (depth query))) = None"
  shows "\<bar>total_cost_usd r - charged (returned p query w)\<bar> < 1 / 10 ^ 9 \<and>
         (distinct (returned_urls (returned p query w)) \<longrightarrow>
            length (sources r) = returned_count (returned p query w) \<and>
            \<bar>total_cost_usd r - sum_list (map cost_usd (sources r))\<bar> < 1 / 10 ^ 9)"
proof -
  have miss': "cache_get (orch_emit ''query_started'' orch)
                 (make_key (query_text query) (depth_value (depth query))) = None"
    using miss by (simp add: cache_get_def orch_emit_def)
  from run miss' obtain r0 w1 where d: "dispatch p query w = (Inr r0, w1)"
    and r: "r = r0\<lparr>r_latency_ms := (t1 - t0) * 1000\<rparr>"
    by (auto simp: gather_intel_def Let_def split: prod.splits sum.splits
        simp del: dispatch.simps)
  obtain E T P where ret: "returned p query w = (E, T, P)"
    by (cases "returned p query w")
  from dispatch_built[OF d] r have "built_from r (returned p query w)"
    by (simp add: built_from_latency)
  with ret obtain es ts ps where
    c: "convert_search_results E ''exa'' = Inr es"
       "convert_search_results T ''tavily'' = Inr ts"
       "collect (map scraped_source P) = Inr ps"
    and g: "gathered r (es @ ts @ ps)"
    by (auto simp: built_from_def)
  have total: "total_cost_usd r = charged (E, T, P)"
    using g convert_cost[OF c(1)] convert_cost[OF c(2)] scraped_cost[OF c(3)]
    by (simp add: gathered_def)
  have urls: "map url (es @ ts @ ps) = map sr_url E @ map sr_url T @ map (\<lambda>sc. Some (sc_url sc)) P"
    using convert_urls[OF c(1)] convert_urls[OF c(2)] scraped_urls[OF c(3)] by simp
  have len: "length (es @ ts @ ps) = length E + length T + length P"
    using arg_cong[OF urls, of length] by simp
  have "distinct (returned_urls (E, T, P)) \<longrightarrow>
            length (sources r) = returned_count (E, T, P) \<and>
            \<bar>total_cost_usd r - sum_list (map cost_usd (sources r))\<bar> < 1 / 10 ^ 9"
  proof
    assume "distinct (returned_urls (E, T, P))"
    then have n: "no_duplicate_urls (es @ ts @ ps)"
      unfolding no_duplicate_urls_iff urls by simp
    from g have m: "mset (sources r) = mset (es @ ts @ ps)"
      using dedup_distinct_mset[OF n] by (auto simp: gathered_def)
    then have "length (sources r) = length (es @ ts @ ps)"
      by (rule mset_eq_length)
    moreover from m have "sum_list (map cost_usd (sources r)) = sum_list (map cost_usd (es @ ts @ ps))"
      by (rule sum_cost_mset)
    ultimately show "length (sources r) = returned_count (E, T, P) \<and>
            \<bar>total_cost_usd r - sum_list (map cost_usd (sources r))\<bar> < 1 / 10 ^ 9"
      using g len by (simp add: gathered_def)
  qed
  with total ret show ?thesis by simp
qed

text \<open>
  Witness for claim C3 (amended): Standard depth without a cache, the two searches
  returning three distinct URLs; the total of 0.0105 is the charge for one neural hit
  and a news search, and the sum over the three sources of the result.
\<close>

theorem cost_sum_amended_witness:
  "\<exists>r orch'.
     gather_intel distinct_url_ports (example_query STANDARD) 0 1 orchestrator_init () =
       (Inr r, orch', ()) \<and>
     cache_get orchestrator_init
       (make_key (query_text (example_query STANDARD))
          (depth_value (depth (example_query STANDARD)))) = None \<and>
     returned_urls (returned distinct_url_ports (example_query STANDARD) ()) =
       [Some ''https://a/1'', Some ''https://b/1'', Some ''https://news/2''] \<and>
     charged (returned distinct_url_ports (example_query STANDARD) ()) = 0.0105 \<and>
     \<bar>total_cost_usd r - 0.0105\<bar> < 1 / 10 ^ 9 \<and>
     length (sources r) = 3 \<and>
     \<bar>total_cost_usd r - sum_list (map cost_usd (sources r))\<bar> < 1 / 10 ^ 9"
proof -
  from distinct_url_run obtain r orch' where
    run: "gather_intel distinct_url_ports (example_query STANDARD) 0 1 orchestrator_init () =
            (Inr r, orch', ())"
    by (elim exE conjE)
  have miss: "cache_get orchestrator_init
       (make_key (query_text (example_query STANDARD))
          (depth_value (depth (example_query STANDARD)))) = None"
    by (simp add: cache_get_def orchestrator_init_def)
  have urls: "returned_urls (returned distinct_url_ports (example_query STANDARD) ()) =
       [Some ''https://a/1'', Some ''https://b/1'', Some ''https://news/2'']"
    by (simp add: returned_def hits_of_def distinct_url_ports_def orch_eval)
  have count: "returned_count (returned distinct_url_ports (example_query STANDARD) ()) = 3"
    by (simp add: returned_def hits_of_def distinct_url_ports_def orch_eval)
  have charge: "charged (returned distinct_url_ports (example_query STANDARD) ()) = 0.0105"
    by (simp add: returned_def hits_of_def distinct_url_ports_def orch_eval)
  from cost_sum_amended[OF run miss] urls count charge run miss show ?thesis
    by auto
qed

subsection \<open>The shallow happy path\<close>

lemma exa_search_port:
  "exa_search (client_ports b t0 t1) q n w =
     (Inl TypeError,
      w\<lparr>exa_client := emit_event (''SourceQueried'', ''exa'', ''failed'')
                         (emit_event (''source_querying'', ''exa'', ''started'')
                            (exa_client w))\<rparr>)"
  by (simp add: client_ports_def ExaSource_search_def source_call_TypeError)

text \<open>
  With a source object that hands the three parsed hits back (as the unit tests inject
  one), the orchestrator produces the Result that the scenario expects.
\<close>

lemma shallow_happy_path_with_stub_source:
  "\<exists>r orch'. gather_intel (stub_ports (Inr (ExaSource_parse_results bitcoin_items)) (Inr []) (Inr []))
          (example_query SHALLOW) 0 1 orchestrator_init () = (Inr r, orch', ()) \<and>
     length (sources r) = 3 \<and> total_cost_usd r = 0.0015 \<and>
     relevance_score (sources r ! 0) = 0.95"
  by (simp add: orch_eval ExaSource_parse_results_def exa_parse_item_def bitcoin_items_def
      or_else_def)

text \<open>
  Over the real clients, every Shallow or Deep query that misses the cache raises the
  \<open>TypeError\<close> of the neural-search client, whatever the backends answer.
\<close>

lemma shallow_or_deep_over_real_clients_raises:
  assumes "depth q \<noteq> STANDARD"
      and "cache_get orch (make_key (query_text q) (depth_value (depth q))) = None"
  shows "fst (gather_intel (client_ports b t0 t1) q t0' t1' orch w) = Inl TypeError"
proof -
  have miss: "cache_get (orch_emit ''query_started'' orch)
                 (make_key (query_text q) (depth_value (depth q))) = None"
    using assms(2) by (simp add: cache_get_def orch_emit_def)
  have "fst (dispatch (client_ports b t0 t1) q w) = Inl TypeError"
    using assms(1)
    by (cases "depth q") (simp_all add: gather_shallow_def gather_deep_def exa_search_port)
  then show ?thesis
    using miss
    by (auto simp: gather_intel_def Let_def split: prod.splits sum.splits
        simp del: dispatch.simps)
qed

text \<open>
  Claim C1 does not hold of the code. The orchestrator over the real neural-search
  client, whose backend answers HTTP 200 with three hits of scores 0.95, 0.88 and 0.82
  and distinct URLs, does not return a Result for the Shallow query: \<open>gather_intel\<close>
  raises the \<open>TypeError\<close> of the client's breaker call, the orchestrator emits
  \<open>query_started\<close> and \<open>error_occurred\<close>, and no HTTP request is issued.
\<close>

theorem shallow_happy_path_raises_TypeError:
  "fst (gather_intel (client_ports bitcoin_backends 0 1) (example_query SHALLOW) 0 1
          orchestrator_init clients_init) = Inl TypeError \<and>
   orch_events (fst (snd (gather_intel (client_ports bitcoin_backends 0 1)
          (example_query SHALLOW) 0 1 orchestrator_init clients_init))) =
     [''query_started'', ''error_occurred''] \<and>
   http_requests (exa_client (snd (snd (gather_intel (client_ports bitcoin_backends 0 1)
          (example_query SHALLOW) 0 1 orchestrator_init clients_init)))) = 0"
  by (simp add: gather_intel_def gather_shallow_def exa_search_port example_query_def
      orchestrator_init_def orch_emit_def cache_get_def make_key_def Let_def clients_init_def
      source_client_init_def emit_event_def)

section \<open>Event bus and streaming emitter: properties\<close>

lemmas bus_eval =
  example_bus_def one_shot_bus_def cancelled_bus_def sse_subscribe_def subscribe_def
  unsubscribe_def EventBus_init_def handlers_for_def emit_def offer_def full_def
  sse_unsubscribe_all_def sse_release_def Let_def

lemmas sse_eval =
  two_sessions_def session_open_def session_teardown_def SSEEventEmitter_init_def
  subscribed_def pending_def emit_via_def

lemma example_envelope_type: "event_type example_envelope = ''query_started''"
  by (simp add: example_envelope_def)

lemma handlers_for_log [simp]:
  "handlers_for (b\<lparr>calls := c\<rparr>) ty = handlers_for b ty"
  "handlers_for (b\<lparr>failures := f\<rparr>) ty = handlers_for b ty"
  by (simp_all add: handlers_for_def)

lemma dispatch_loop_no_handlers:
  "handlers_for b (event_type envelope) = [] \<Longrightarrow> dispatch_loop i envelope b = Some (None, b)"
  by (subst dispatch_loop.simps) (simp add: Let_def)






text \<open>
  What \<open>except Exception\<close> does not catch leaves \<open>emit\<close>: a handler unwound by
  cancellation ends the dispatch, and the handlers after it are not awaited.
\<close>

lemma cancellation_propagates:
  "\<exists>b'. emit example_envelope cancelled_bus = Some (Inl CancelledError, b') \<and>
        calls b' = [''cancelled'']"
  by (simp add: dispatch_loop.simps[of _ example_envelope] example_envelope_type bus_eval)

text \<open>Whoever's session ends, the teardown leaves the bus without any streaming queue.\<close>

lemma teardown_clears_bus: "sse_queues (bus (session_teardown sid em)) = []"
  by (simp add: session_teardown_def sse_unsubscribe_all_def sse_release_def Let_def
      split: option.splits)

text \<open>
  Claim C10 does not hold of the code. With two live sessions \<open>s1\<close> and \<open>s2\<close>, an
  emitted envelope reaches the queue that the forwarder of \<open>s2\<close> reads; after the
  teardown of \<open>s1\<close> the bus has no streaming queue left, \<open>s2\<close> is no longer subscribed,
  and an envelope emitted afterwards does not reach \<open>s2\<close>.
\<close>

theorem teardown_unsubscribes_other_sessions:
  "subscribed ''s2'' two_sessions \<and>
   pending ''s2'' (emit_via example_envelope two_sessions) = [example_envelope] \<and>
   \<not> subscribed ''s2'' (session_teardown ''s1'' two_sessions) \<and>
   sse_queues (bus (session_teardown ''s1'' two_sessions)) = [] \<and>
   pending ''s2'' (emit_via example_envelope (session_teardown ''s1'' two_sessions)) = []"
  by (simp add: sse_eval bus_eval dispatch_loop_no_handlers)

section \<open>Agreement with the repository's tests\<close>

text \<open>
  The model run on the inputs of unit tests that exercise the modelled functions
  directly (tests/unit/test_retry.py, test_rate_limit_tracking.py,
  test_circuit_breaker.py, test_orchestrator.py), and on scenario 3 of the
  specification.
\<close>

lemma test_api_error_exhausts_3_attempts:
  "fst (retry_with_backoff default_retry_config (\<lambda>k. Inl (APIError (Some 500)) :: exn + nat)
          (\<lambda>k. 0)) = Inl (APIError (Some 500)) \<and>
   total_attempt (snd (retry_with_backoff default_retry_config
          (\<lambda>k. Inl (APIError (Some 500)) :: exn + nat) (\<lambda>k. 0))) = 3"
  by (simp add: retry_with_backoff_def
      retry_loop.simps[of default_retry_config "\<lambda>k. Inl (APIError (Some 500))"] retry_eval)

lemma test_rate_limit_error_exhausts_5_attempts:
  "total_attempt (snd (retry_with_backoff default_retry_config
          (\<lambda>k. Inl (RateLimitError None) :: exn + nat) (\<lambda>k. 0))) = 5"
  by (simp add: retry_with_backoff_def
      retry_loop.simps[of default_retry_config "\<lambda>k. Inl (RateLimitError None)"] retry_eval)

lemma test_opens_after_threshold:
  "cb_state (fst (snd (run_calls [(0, 0), (1, 1), (2, 2)] failing_probe
      (CircuitBreaker_init ''test'' INTEL_API_CONFIG) 0))) = OPEN"
  by (simp add: cb_eval failing_probe_def)

lemma test_open_rejects_calls:
  "fst (run_calls [(0, 0), (0, 0), (0, 0)] failing_probe
         (CircuitBreaker_init ''test'' (test_config\<lparr>timeout_seconds := 60\<rparr>)) 0) =
     [Inl (OtherException ''fail''), Inl (OtherException ''fail''), Inl (CircuitOpenError 60)]"
  by (simp add: cb_eval failing_probe_def test_config_def)

lemma test_half_open_success_closes:
  "(case run_calls [(0, 0), (0, 0)] failing_probe (CircuitBreaker_init ''test'' test_config) 0 of
      (outs, cb, w) \<Rightarrow>
        (case CircuitBreaker_call 0.06 0.06 succeeding_probe cb w of
           (out, cb', w') \<Rightarrow>
             out = Inr ''recovered'' \<and> cb_state cb' = CLOSED \<and> half_open_calls cb' = 0))"
  by (simp add: cb_eval failing_probe_def succeeding_probe_def test_config_def)

lemma test_half_open_failure_reopens:
  "cb_state (fst (snd (run_calls [(0, 0), (0, 0), (0.06, 0.06)] failing_probe
      (CircuitBreaker_init ''test'' test_config) 0))) = OPEN"
  by (simp add: cb_eval failing_probe_def test_config_def)

lemma test_deduplicate_sources:
  "map (\<lambda>s. (source_name s, url s)) (deduplicate_sources
     [ \<lparr> source_name = ''exa'', url = Some ''https://same.com'', title = ''A'', snippet = ''S'',
         relevance_score = 0.9, cost_usd = 0, latency_ms = 0 \<rparr>,
       \<lparr> source_name = ''tavily'', url = Some ''https://same.com'', title = ''A'', snippet = ''S'',
         relevance_score = 0.7, cost_usd = 0, latency_ms = 0 \<rparr>,
       \<lparr> source_name = ''exa'', url = Some ''https://unique.com'', title = ''B'', snippet = ''S2'',
         relevance_score = 0.8, cost_usd = 0, latency_ms = 0 \<rparr> ]) =
   [(''exa'', Some ''https://same.com''), (''exa'', Some ''https://unique.com'')]"
  by (simp add: deduplicate_sources_def)

lemma deep_scrape_filtering:
  "extract_scrape_urls
     [hit ''https://ok/1'' 0.9 ''exa'', hit ''https://twitter.com/x'' 0.8 ''exa'',
      hit ''https://ok/2'' 0.7 ''exa''] = [''https://ok/1'', ''https://ok/2'']"
  by (simp add: extract_scrape_urls_def hit_def skip_patterns_def py_lower_def lower_char_def)

lemma snippet_key_folds_case_and_space:
  "py_lower (py_strip '' First Snippet  '') = ''first snippet''"
  by (simp add: py_lower_def py_strip_def lower_char_def is_space_def)

text \<open>
  Over the real source clients, a Standard query completes with no source and no cost:
  both searches raise, and a failed source is dropped.
\<close>

lemma standard_over_real_clients_is_empty:
  "\<exists>r st. gather_intel (client_ports b 0 1) (example_query STANDARD) 0 1 orchestrator_init
             clients_init = (Inr r, st) \<and> sources r = [] \<and> total_cost_usd r = 0"
  by (simp add: gather_intel_def gather_standard_def client_ports_def ExaSource_search_def
      TavilySource_search_def source_call_TypeError example_query_def orchestrator_init_def
      orch_emit_def cache_get_def cache_set_def make_key_def Let_def clients_init_def
      source_client_init_def emit_event_def is_rate_limited_def convert_search_results_def
      make_result_def deduplicate_sources_def)

end
